theory Spec2Isabelle
  imports Main
begin

section \<open>Data model of the generation orchestrator (backend/ai\_generator.py)\<close>

text \<open>
  Python values that travel through tool calls: the arguments of a tool call are scalars,
  and a tool's return value is tested with \<open>isinstance(tool_result, str)\<close>, so values
  that are not strings are part of the model.
\<close>

datatype pyval = PStr string | PInt int | PNone

type_synonym tool_input = "(string \<times> pyval) list"

text \<open>
  A content block of an engine response: \<open>block.type\<close> is \<open>"text"\<close> (with
  attribute \<open>text\<close>) or \<open>"tool_use"\<close> (with attributes \<open>id\<close>, \<open>name\<close>,
  \<open>input\<close>, and no attribute \<open>text\<close>).
\<close>

datatype content_block =
    TextBlock string
  | ToolUseBlock string string tool_input

record response =
  stop_reason :: string
  content :: "content_block list"

text \<open>The dict \<open>{"type": "tool_result", "tool_use_id": ..., "content": ...}\<close>.\<close>

record tool_result =
  tool_use_id :: string
  result_content :: pyval

text \<open>
  The value under the key \<open>"content"\<close> of a transcript turn: the query string, the
  content blocks of an engine response, or a list of tool results.
\<close>

datatype msg_content =
    Text string
  | Blocks "content_block list"
  | ToolResults "tool_result list"

record message =
  role :: string
  msg_content :: msg_content

text \<open>A tool schema, passed through to the engine without being inspected.\<close>

record tool_schema =
  schema_name :: string
  description :: string
  properties :: "(string \<times> string) list"
  required :: "string list"

text \<open>
  The keyword arguments of \<open>client.messages.create\<close>. The keys \<open>tools\<close> and
  \<open>tool_choice\<close> are optional: \<open>None\<close> is a dict without the key.
\<close>

record request =
  model :: string
  temperature :: int
  max_tokens :: nat
  messages :: "message list"
  system :: string
  tools :: "tool_schema list option"
  tool_choice :: "(string \<times> string) list option"

text \<open>
  An exception raised by a collaborator (the engine client or a tool), with \<open>str(e)\<close>.
  Only instances of \<open>Exception\<close> are modelled; \<open>KeyboardInterrupt\<close> and
  \<open>SystemExit\<close> are outside the model.
\<close>

datatype exn = Exception string

fun str :: "exn \<Rightarrow> string" where
  "str (Exception m) = m"

text \<open>
  What \<open>generate_response\<close> can raise: an exception of the engine client, which it
  does not catch, or the failure of \<open>response.content[0].text\<close>.
\<close>

datatype error = Raised exn | IndexError | AttributeError

text \<open>
  The calls that leave the orchestrator, in the order they are made, each with its
  outcome; \<open>ToolRound n\<close> records a call of \<open>_execute_single_tool_round\<close> in round
  \<open>n\<close>.
\<close>

datatype event =
    EngineCall request "exn + response"
  | ToolCall string tool_input "exn + pyval"
  | ToolRound nat

text \<open>
  The collaborators are black boxes with a state of their own (type \<open>'s\<close>), which
  every call may read and change.
\<close>

record 's world =
  ext :: 's
  trace :: "event list"

type_synonym 's client = "request \<Rightarrow> 's \<Rightarrow> (exn + response) \<times> 's"

type_synonym 's tool_manager = "string \<Rightarrow> tool_input \<Rightarrow> 's \<Rightarrow> (exn + pyval) \<times> 's"

text \<open>
  An \<open>AIGenerator\<close> instance. \<open>SYSTEM_PROMPT\<close> is a class constant whose text no
  property below depends on; it is carried as a field.
\<close>

record 's AIGenerator =
  client :: "'s client"
  self_model :: string
  SYSTEM_PROMPT :: string

section \<open>Strings\<close>

text \<open>
  \<open>str.lower\<close> on the letters A to Z. No other code point lowers to a sequence that
  contributes to an occurrence of \<open>"failed"\<close>, so on the question the code asks the
  byte-wise function agrees with Python's.
\<close>

definition lower_char :: "char \<Rightarrow> char" where
  "lower_char c =
     (let n = (of_char c :: nat) in if 65 \<le> n \<and> n \<le> 90 then char_of (n + 32) else c)"

definition lower :: "string \<Rightarrow> string" where
  "lower s = map lower_char s"

text \<open>Python's \<open>sub in s\<close> on strings.\<close>

fun is_prefix :: "string \<Rightarrow> string \<Rightarrow> bool" where
  "is_prefix [] s = True"
| "is_prefix (a # as) [] = False"
| "is_prefix (a # as) (b # bs) = (a = b \<and> is_prefix as bs)"

fun str_in :: "string \<Rightarrow> string \<Rightarrow> bool" where
  "str_in sub [] = (sub = [])"
| "str_in sub (c # cs) = (is_prefix sub (c # cs) \<or> str_in sub cs)"

section \<open>The orchestrator\<close>

definition base_params :: "'s AIGenerator \<Rightarrow> request" where
  "base_params self =
     \<lparr> model = self_model self, temperature = 0, max_tokens = 800,
       messages = [], system = [], tools = None, tool_choice = None \<rparr>"

definition messages_create ::
  "'s AIGenerator \<Rightarrow> request \<Rightarrow> 's world \<Rightarrow> (exn + response) \<times> 's world" where
  "messages_create self req w =
     (case client self req (ext w) of
        (r, s') \<Rightarrow> (r, \<lparr> ext = s', trace = trace w @ [EngineCall req r] \<rparr>))"

definition call_execute_tool ::
  "'s tool_manager \<Rightarrow> string \<Rightarrow> tool_input \<Rightarrow> 's world \<Rightarrow> (exn + pyval) \<times> 's world" where
  "call_execute_tool tm n inp w =
     (case tm n inp (ext w) of
        (r, s') \<Rightarrow> (r, \<lparr> ext = s', trace = trace w @ [ToolCall n inp r] \<rparr>))"

text \<open>\<open>isinstance(tool_result, str) and "failed" in tool_result.lower()\<close>\<close>

fun indicates_failure :: "pyval \<Rightarrow> bool" where
  "indicates_failure (PStr s) = str_in ''failed'' (lower s)"
| "indicates_failure v = False"

text \<open>
  The \<open>for\<close> loop of \<open>_execute_single_tool_round\<close>, with the two variables it
  updates, \<open>tool_results\<close> and \<open>has_failures\<close>.
\<close>

fun tool_round_loop ::
  "'s tool_manager \<Rightarrow> content_block list \<Rightarrow> tool_result list \<Rightarrow> bool \<Rightarrow> 's world
     \<Rightarrow> (tool_result list \<times> bool) \<times> 's world" where
  "tool_round_loop tm [] tool_results has_failures w = ((tool_results, has_failures), w)"
| "tool_round_loop tm (TextBlock t # bs) tool_results has_failures w =
     tool_round_loop tm bs tool_results has_failures w"
| "tool_round_loop tm (ToolUseBlock i n inp # bs) tool_results has_failures w =
     (case call_execute_tool tm n inp w of
        (Inr tool_result, w') \<Rightarrow>
          tool_round_loop tm bs
            (tool_results @ [\<lparr> tool_use_id = i, result_content = tool_result \<rparr>])
            (has_failures \<or> indicates_failure tool_result) w'
      | (Inl e, w') \<Rightarrow>
          tool_round_loop tm bs
            (tool_results @
               [\<lparr> tool_use_id = i,
                  result_content = PStr (''Tool execution failed: '' @ str e) \<rparr>])
            True w')"

definition execute_single_tool_round ::
  "response \<Rightarrow> 's tool_manager \<Rightarrow> 's world \<Rightarrow> (tool_result list \<times> bool) \<times> 's world" where
  "execute_single_tool_round resp tm w = tool_round_loop tm (content resp) [] False w"

definition MAX_ROUNDS :: nat where
  "MAX_ROUNDS = 2"

fun is_tool_use :: "content_block \<Rightarrow> bool" where
  "is_tool_use (ToolUseBlock i n inp) = True"
| "is_tool_use (TextBlock t) = False"

text \<open>\<open>response.content[0].text\<close>\<close>

fun first_text :: "response \<Rightarrow> error + string" where
  "first_text resp =
     (case content resp of
        [] \<Rightarrow> Inl IndexError
      | TextBlock t # bs \<Rightarrow> Inr t
      | ToolUseBlock i n inp # bs \<Rightarrow> Inl AttributeError)"

text \<open>
  The \<open>while\<close> loop of \<open>_handle_sequential_tool_execution\<close>. Its result is the value
  of \<open>current_response\<close> when the loop is left, or the exception of an engine call.
\<close>

function round_loop ::
  "'s AIGenerator \<Rightarrow> request \<Rightarrow> 's tool_manager \<Rightarrow> nat \<Rightarrow> message list \<Rightarrow> response
     \<Rightarrow> 's world \<Rightarrow> (exn + response) \<times> 's world" where
  "round_loop self bp tm current_round msgs current_response w =
     (if current_round \<le> MAX_ROUNDS then
        (let msgs1 = msgs @ [\<lparr> role = ''assistant'',
                                msg_content = Blocks (content current_response) \<rparr>]
         in case execute_single_tool_round current_response tm
                   (w\<lparr> trace := trace w @ [ToolRound current_round] \<rparr>) of
              ((tool_results, has_tool_failures), w1) \<Rightarrow>
                if has_tool_failures then
                  messages_create self
                    ((base_params self)
                       \<lparr> messages := msgs1 @ [\<lparr> role = ''user'',
                                                 msg_content = ToolResults tool_results \<rparr>],
                         system := system bp \<rparr>) w1
                else
                  (let msgs2 = (if tool_results \<noteq> []
                                then msgs1 @ [\<lparr> role = ''user'',
                                                 msg_content = ToolResults tool_results \<rparr>]
                                else msgs1);
                       api_params = (base_params self)
                                      \<lparr> messages := msgs2, system := system bp \<rparr>;
                       api_params = (if current_round < MAX_ROUNDS
                                     then api_params
                                            \<lparr> tools := Some (case tools bp of
                                                               Some ts \<Rightarrow> ts | None \<Rightarrow> []),
                                              tool_choice := Some [(''type'', ''auto'')] \<rparr>
                                     else api_params)
                   in case messages_create self api_params w1 of
                        (Inl e, w2) \<Rightarrow> (Inl e, w2)
                      | (Inr resp, w2) \<Rightarrow>
                          if \<not> list_ex is_tool_use (content resp)
                             \<or> current_round \<ge> MAX_ROUNDS
                          then (Inr resp, w2)
                          else round_loop self bp tm (current_round + 1) msgs2 resp w2))
      else (Inr current_response, w))"
  by pat_completeness auto
termination
  by (relation "measure (\<lambda>(self, bp, tm, current_round, rest). 3 - current_round)")
     (auto simp: MAX_ROUNDS_def)

definition handle_sequential_tool_execution ::
  "'s AIGenerator \<Rightarrow> response \<Rightarrow> request \<Rightarrow> 's tool_manager \<Rightarrow> 's world
     \<Rightarrow> (error + string) \<times> 's world" where
  "handle_sequential_tool_execution self initial_response bp tm w =
     (case round_loop self bp tm 1 (messages bp) initial_response w of
        (Inl e, w') \<Rightarrow> (Inl (Raised e), w')
      | (Inr current_response, w') \<Rightarrow> (first_text current_response, w'))"

text \<open>
  \<open>generate_response\<close>. \<open>conversation_history\<close> and \<open>tools\<close> are tested for
  truthiness: \<open>None\<close> and the empty value both take the \<open>else\<close> branch.
\<close>

definition system_content :: "'s AIGenerator \<Rightarrow> string option \<Rightarrow> string" where
  "system_content self conversation_history =
     (case conversation_history of
        None \<Rightarrow> SYSTEM_PROMPT self
      | Some h \<Rightarrow>
          if h = [] then SYSTEM_PROMPT self
          else SYSTEM_PROMPT self @ [CHR 0x0A, CHR 0x0A] @ ''Previous conversation:''
                 @ [CHR 0x0A] @ h)"

definition initial_params ::
  "'s AIGenerator \<Rightarrow> string \<Rightarrow> string option \<Rightarrow> tool_schema list option \<Rightarrow> request" where
  "initial_params self query conversation_history tls =
     (let api_params = (base_params self)
                         \<lparr> messages := [\<lparr> role = ''user'', msg_content = Text query \<rparr>],
                           system := system_content self conversation_history \<rparr>
      in case tls of
           None \<Rightarrow> api_params
         | Some ts \<Rightarrow>
             if ts = [] then api_params
             else api_params\<lparr> tools := Some ts,
                               tool_choice := Some [(''type'', ''auto'')] \<rparr>)"

definition generate_response ::
  "'s AIGenerator \<Rightarrow> string \<Rightarrow> string option \<Rightarrow> tool_schema list option
     \<Rightarrow> 's tool_manager option \<Rightarrow> 's world \<Rightarrow> (error + string) \<times> 's world" where
  "generate_response self query conversation_history tls tool_manager w =
     (let api_params = initial_params self query conversation_history tls
      in case messages_create self api_params w of
           (Inl e, w') \<Rightarrow> (Inl (Raised e), w')
         | (Inr resp, w') \<Rightarrow>
             (case tool_manager of
                Some tm \<Rightarrow>
                  if stop_reason resp = ''tool_use''
                  then handle_sequential_tool_execution self resp api_params tm w'
                  else (first_text resp, w')
              | None \<Rightarrow> (first_text resp, w')))"


section \<open>Observations on a trace\<close>

fun engine_requests :: "event list \<Rightarrow> request list" where
  "engine_requests [] = []"
| "engine_requests (EngineCall req r # es) = req # engine_requests es"
| "engine_requests (ToolCall n inp r # es) = engine_requests es"
| "engine_requests (ToolRound k # es) = engine_requests es"

fun engine_calls :: "event list \<Rightarrow> (request \<times> (exn + response)) list" where
  "engine_calls [] = []"
| "engine_calls (EngineCall req r # es) = (req, r) # engine_calls es"
| "engine_calls (ToolCall n inp r # es) = engine_calls es"
| "engine_calls (ToolRound k # es) = engine_calls es"

fun tool_rounds :: "event list \<Rightarrow> nat list" where
  "tool_rounds [] = []"
| "tool_rounds (EngineCall req r # es) = tool_rounds es"
| "tool_rounds (ToolCall n inp r # es) = tool_rounds es"
| "tool_rounds (ToolRound k # es) = k # tool_rounds es"

fun tool_outcomes :: "event list \<Rightarrow> (exn + pyval) list" where
  "tool_outcomes [] = []"
| "tool_outcomes (EngineCall req r # es) = tool_outcomes es"
| "tool_outcomes (ToolCall n inp r # es) = r # tool_outcomes es"
| "tool_outcomes (ToolRound k # es) = tool_outcomes es"

fun is_tool_call :: "event \<Rightarrow> bool" where
  "is_tool_call (ToolCall n inp r) = True"
| "is_tool_call e = False"

fun is_engine_call :: "event \<Rightarrow> bool" where
  "is_engine_call (EngineCall req r) = True"
| "is_engine_call e = False"

text \<open>The correlation identifiers of the tool-use blocks of a response, in order.\<close>

fun tool_use_ids :: "content_block list \<Rightarrow> string list" where
  "tool_use_ids [] = []"
| "tool_use_ids (TextBlock t # bs) = tool_use_ids bs"
| "tool_use_ids (ToolUseBlock i n inp # bs) = i # tool_use_ids bs"

text \<open>
  The tool result that the round builds for a tool-use block with identifier \<open>i\<close> from
  the outcome of its \<open>execute_tool\<close> call, and whether that outcome sets
  \<open>has_failures\<close>.
\<close>

fun result_of :: "string \<Rightarrow> exn + pyval \<Rightarrow> tool_result" where
  "result_of i (Inr v) = \<lparr> tool_use_id = i, result_content = v \<rparr>"
| "result_of i (Inl e) =
     \<lparr> tool_use_id = i, result_content = PStr (''Tool execution failed: '' @ str e) \<rparr>"

fun outcome_failed :: "exn + pyval \<Rightarrow> bool" where
  "outcome_failed (Inr v) = indicates_failure v"
| "outcome_failed (Inl e) = True"

definition round_results :: "response \<Rightarrow> event list \<Rightarrow> tool_result list" where
  "round_results cur tcs = map2 result_of (tool_use_ids (content cur)) (tool_outcomes tcs)"

definition round_failed :: "event list \<Rightarrow> bool" where
  "round_failed tcs = list_ex outcome_failed (tool_outcomes tcs)"

definition tool_events :: "response \<Rightarrow> event list \<Rightarrow> bool" where
  "tool_events cur tcs =
     (list_all is_tool_call tcs
      \<and> length (tool_outcomes tcs) = length (tool_use_ids (content cur)))"

text \<open>The two kinds of request the loop sends, and the transcript after a round.\<close>

definition forced_final :: "'s AIGenerator \<Rightarrow> request \<Rightarrow> message list \<Rightarrow> request" where
  "forced_final self bp msgs = (base_params self)\<lparr> messages := msgs, system := system bp \<rparr>"

definition with_tools :: "'s AIGenerator \<Rightarrow> request \<Rightarrow> message list \<Rightarrow> request" where
  "with_tools self bp msgs =
     (base_params self)
       \<lparr> messages := msgs, system := system bp,
         tools := Some (case tools bp of Some ts \<Rightarrow> ts | None \<Rightarrow> []),
         tool_choice := Some [(''type'', ''auto'')] \<rparr>"

definition round_messages ::
  "message list \<Rightarrow> response \<Rightarrow> tool_result list \<Rightarrow> message list" where
  "round_messages msgs cur trs =
     msgs @ [\<lparr> role = ''assistant'', msg_content = Blocks (content cur) \<rparr>]
       @ (if trs = [] then [] else [\<lparr> role = ''user'', msg_content = ToolResults trs \<rparr>])"

text \<open>What the caller of \<open>generate_response\<close> gets from the last engine outcome.\<close>

fun final_text :: "exn + response \<Rightarrow> error + string" where
  "final_text (Inl e) = Inl (Raised e)"
| "final_text (Inr resp) = first_text resp"

text \<open>
  The events of a run of the loop that starts in round 1 on the response \<open>cur\<close> with
  the transcript \<open>msgs\<close>, and the outcome of its last engine call: the round failed;
  or it did not and the next response asks for no tool (or the call raised); or a second
  round follows.
\<close>

definition loop_trace ::
  "'s AIGenerator \<Rightarrow> request \<Rightarrow> message list \<Rightarrow> response \<Rightarrow> event list
     \<Rightarrow> (exn + response) \<Rightarrow> bool" where
  "loop_trace self bp msgs cur evs res =
     (\<exists>tcs. tool_events cur tcs \<and>
        (let msgs1 = round_messages msgs cur (round_results cur tcs) in
           (round_failed tcs
            \<and> evs = ToolRound 1 # tcs @ [EngineCall (forced_final self bp msgs1) res])
         \<or> (\<not> round_failed tcs
            \<and> evs = ToolRound 1 # tcs @ [EngineCall (with_tools self bp msgs1) res]
            \<and> (\<forall>resp. res = Inr resp \<longrightarrow> \<not> list_ex is_tool_use (content resp)))
         \<or> (\<not> round_failed tcs
            \<and> (\<exists>resp tcs2. list_ex is_tool_use (content resp) \<and> tool_events resp tcs2
                  \<and> evs = ToolRound 1 # tcs
                            @ EngineCall (with_tools self bp msgs1) (Inr resp)
                            # ToolRound 2 # tcs2
                            @ [EngineCall
                                 (forced_final self bp
                                    (round_messages msgs1 resp (round_results resp tcs2)))
                                 res]))))"

section \<open>Scripted collaborators\<close>

text \<open>
  The collaborators of the repository's tests (\<open>Mock\<close> objects with a
  \<open>side_effect\<close> list): each call consumes the next scripted outcome, and a call
  beyond the script raises.
\<close>

type_synonym script = "(exn + response) list \<times> (exn + pyval) list"

definition mock_client :: "script client" where
  "mock_client req s =
     (case fst s of
        [] \<Rightarrow> (Inl (Exception ''StopIteration''), s)
      | r # rs \<Rightarrow> (r, (rs, snd s)))"

definition mock_tool_manager :: "script tool_manager" where
  "mock_tool_manager n inp s =
     (case snd s of
        [] \<Rightarrow> (Inl (Exception ''StopIteration''), s)
      | r # rs \<Rightarrow> (r, (fst s, rs)))"

definition mock_generator :: "script AIGenerator" where
  "mock_generator =
     \<lparr> client = mock_client, self_model = ''claude-sonnet-4-20250514'',
       SYSTEM_PROMPT = ''You are an AI assistant'' \<rparr>"

definition mock_tools :: "tool_schema list" where
  "mock_tools =
     [\<lparr> schema_name = ''search_course_content'', description = ''Search course materials'',
        properties = [(''query'', ''string''), (''course_name'', ''string''),
                      (''lesson_number'', ''integer'')],
        required = [''query''] \<rparr>]"

definition tool_use_response :: "string \<Rightarrow> string \<Rightarrow> response" where
  "tool_use_response i q =
     \<lparr> stop_reason = ''tool_use'',
       content = [ToolUseBlock i ''search_course_content'' [(''query'', PStr q)]] \<rparr>"

definition text_response :: "string \<Rightarrow> response" where
  "text_response t = \<lparr> stop_reason = ''end_turn'', content = [TextBlock t] \<rparr>"

definition fresh :: "'s \<Rightarrow> 's world" where
  "fresh s = \<lparr> ext = s, trace = [] \<rparr>"

section \<open>The filtered vector index (backend/vector\_store.py)\<close>

text \<open>
  The equality filter handed to the content collection: the dict
  \<open>{key: value}\<close>, or \<open>{"$and": [...]}\<close>.
\<close>

datatype filter_value = FStr string | FInt int

datatype where_filter = Eq string filter_value | And "where_filter list"

text \<open>
  Modelled from the spec: \<open>VectorStore._build_filter\<close>, whose file
  (backend/vector\_store.py) is not among the sources; only its tests are. No filter if
  neither a course title nor a lesson number is given; a single equality clause if exactly
  one is given; a conjunction of both equality clauses if both are given. The keys are
  those of the tests.
\<close>

definition build_filter :: "string option \<Rightarrow> int option \<Rightarrow> where_filter option" where
  "build_filter course_title lesson_number =
     (case course_title of
        None \<Rightarrow>
          (case lesson_number of
             None \<Rightarrow> None
           | Some n \<Rightarrow> Some (Eq ''lesson_number'' (FInt n)))
      | Some c \<Rightarrow>
          (case lesson_number of
             None \<Rightarrow> Some (Eq ''course_title'' (FStr c))
           | Some n \<Rightarrow>
               Some (And [Eq ''course_title'' (FStr c), Eq ''lesson_number'' (FInt n)])))"

text \<open>
  A row of a search result set and the result set itself, with its optional error. The
  type \<open>'d\<close> of distances is left open.
\<close>

record 'd row =
  document_text :: string
  course_title :: string
  lesson_number :: "int option"
  distance :: 'd

record 'd search_results =
  rows :: "'d row list"
  error :: "string option"

text \<open>
  The vector database behind the index, a black box with its own state \<open>'s\<close>: the
  nearest-neighbour lookup on the catalog returns the canonical titles, closest first,
  and the query on the content collection returns rows; both may raise.
\<close>

record ('s, 'd) vector_store =
  catalog_query :: "string \<Rightarrow> 's \<Rightarrow> (exn + string list) \<times> 's"
  content_query :: "string \<Rightarrow> nat \<Rightarrow> where_filter option \<Rightarrow> 's \<Rightarrow> (exn + 'd row list) \<times> 's"
  max_results :: nat

text \<open>The state of the database and the queries made on the content collection.\<close>

record 's index_world =
  db :: 's
  content_queries :: "(string \<times> nat \<times> where_filter option) list"

text \<open>
  Modelled from the spec: course-name resolution of \<open>VectorStore\<close> (file not among
  the sources). A nearest-neighbour lookup of the name against the catalog, taking the
  single closest match's canonical title; resolution fails if no catalog entries exist or
  the lookup errors.
\<close>

definition resolve_course_name ::
  "('s, 'd) vector_store \<Rightarrow> string \<Rightarrow> 's index_world \<Rightarrow> string option \<times> 's index_world" where
  "resolve_course_name vs course_name w =
     (case catalog_query vs course_name (db w) of
        (Inl e, s') \<Rightarrow> (None, w\<lparr> db := s' \<rparr>)
      | (Inr [], s') \<Rightarrow> (None, w\<lparr> db := s' \<rparr>)
      | (Inr (title # others), s') \<Rightarrow> (Some title, w\<lparr> db := s' \<rparr>))"

text \<open>
  Modelled from the spec: steps 2 to 4 of \<open>VectorStore.search\<close> (file not among the
  sources). Build the filter, query the content collection for the nearest neighbours of
  the query, bounded by the configured cap; a failure of the query is returned as the
  error result \<open>"Search error: <message>"\<close>.
\<close>

definition search_content ::
  "('s, 'd) vector_store \<Rightarrow> string \<Rightarrow> string option \<Rightarrow> int option \<Rightarrow> 's index_world
     \<Rightarrow> 'd search_results \<times> 's index_world" where
  "search_content vs query title lesson w =
     (let filter_dict = build_filter title lesson in
      case content_query vs query (max_results vs) filter_dict (db w) of
        (r, s') \<Rightarrow>
          (let w' = \<lparr> db = s',
                      content_queries =
                        content_queries w @ [(query, max_results vs, filter_dict)] \<rparr>
           in case r of
                Inl e \<Rightarrow> (\<lparr> rows = [], error = Some (''Search error: '' @ str e) \<rparr>, w')
              | Inr found \<Rightarrow> (\<lparr> rows = found, error = None \<rparr>, w')))"

text \<open>
  Modelled from the spec: \<open>VectorStore.search\<close> (file not among the sources). If a
  course name is given it is resolved first; if resolution fails, search returns the error
  result \<open>"No course found matching '<course_name>'"\<close> without querying the content
  collection.
\<close>

definition search ::
  "('s, 'd) vector_store \<Rightarrow> string \<Rightarrow> string option \<Rightarrow> int option \<Rightarrow> 's index_world
     \<Rightarrow> 'd search_results \<times> 's index_world" where
  "search vs query course_name lesson w =
     (case course_name of
        None \<Rightarrow> search_content vs query None lesson w
      | Some name \<Rightarrow>
          (case resolve_course_name vs name w of
             (None, w1) \<Rightarrow>
               (\<lparr> rows = [],
                  error = Some (''No course found matching '' @ [CHR 0x27] @ name @ [CHR 0x27]) \<rparr>,
                w1)
           | (Some title, w1) \<Rightarrow> search_content vs query (Some title) lesson w1))"

text \<open>A database with an empty catalog, and one whose catalog lookup raises.\<close>

definition empty_catalog_store :: "(unit, nat) vector_store" where
  "empty_catalog_store =
     \<lparr> catalog_query = (\<lambda>name s. (Inr [], s)),
       content_query = (\<lambda>q n f s. (Inr [], s)),
       max_results = 5 \<rparr>"

definition failing_catalog_store :: "(unit, nat) vector_store" where
  "failing_catalog_store =
     \<lparr> catalog_query = (\<lambda>name s. (Inl (Exception ''Database error''), s)),
       content_query = (\<lambda>q n f s. (Inr [], s)),
       max_results = 5 \<rparr>"

text \<open>
  The scripts of the repository's tests: two rounds of tool use and a final answer; a tool
  that raises in round 1; and a tool whose result mentions the word \<open>failed\<close>.
\<close>

definition max_rounds_script :: script where
  "max_rounds_script =
     ([Inr (tool_use_response ''tool_1'' ''test1''),
       Inr (tool_use_response ''tool_2'' ''test2''),
       Inr (text_response ''Final answer after max rounds'')],
      [Inr (PStr ''Result 1''), Inr (PStr ''Result 2'')])"

definition tool_failure_script :: script where
  "tool_failure_script =
     ([Inr (tool_use_response ''tool_123'' ''test''),
       Inr (text_response ''I encountered an error with the search...'')],
      [Inl (Exception ''Database connection failed'')])"

definition failed_word_script :: script where
  "failed_word_script =
     ([Inr (tool_use_response ''tool_1'' ''history''),
       Inr (text_response ''The coup did not succeed.'')],
      [Inr (PStr ''Lesson 3: why the 1991 coup FAILED'')])"

definition max_rounds_run :: "(error + string) \<times> script world" where
  "max_rounds_run =
     generate_response mock_generator ''Multi-step query'' None (Some mock_tools)
       (Some mock_tool_manager) (fresh max_rounds_script)"

definition tool_failure_run :: "(error + string) \<times> script world" where
  "tool_failure_run =
     generate_response mock_generator ''Search for content'' None (Some mock_tools)
       (Some mock_tool_manager) (fresh tool_failure_script)"

definition failed_word_run :: "(error + string) \<times> script world" where
  "failed_word_run =
     generate_response mock_generator ''What happened in 1991?'' None (Some mock_tools)
       (Some mock_tool_manager) (fresh failed_word_script)"

text \<open>
  The outcomes of the tool executions of round 1: those between the first and the second
  engine call.
\<close>

definition round1_outcomes :: "event list \<Rightarrow> (exn + pyval) list" where
  "round1_outcomes evs = tool_outcomes (takeWhile (\<lambda>e. \<not> is_engine_call e) (tl evs))"

definition raising_tool_round ::
  "(tool_result list \<times> bool) \<times> script world" where
  "raising_tool_round =
     execute_single_tool_round (tool_use_response ''tool_123'' ''test'') mock_tool_manager
       (fresh ([], [Inl (Exception ''Database connection failed'')]))"

definition engine_down_run :: "(error + string) \<times> script world" where
  "engine_down_run =
     generate_response mock_generator ''Search for content'' None (Some mock_tools)
       (Some mock_tool_manager)
       (fresh ([Inr (tool_use_response ''tool_123'' ''test''),
                Inl (Exception ''Connection error'')],
               [Inl (Exception ''Database connection failed'')]))"

text \<open>
  What may follow a tool call whose result is flagged as a failure: the remaining tool
  calls of its round, then one engine call without tools, and nothing after it.
\<close>

fun final_call_only :: "event list \<Rightarrow> bool" where
  "final_call_only [] = False"
| "final_call_only (ToolCall n inp r # es) = final_call_only es"
| "final_call_only (EngineCall req r # es) =
     (es = [] \<and> tools req = None \<and> tool_choice req = None)"
| "final_call_only (ToolRound k # es) = False"

text \<open>
  A trace in which every tool call that returned a string containing \<open>failed\<close>, in
  any letter case, is followed that way.
\<close>

fun failed_marker_ends_loop :: "event list \<Rightarrow> bool" where
  "failed_marker_ends_loop [] = True"
| "failed_marker_ends_loop (ToolCall n inp (Inr (PStr t)) # es) =
     ((str_in ''failed'' (lower t) \<longrightarrow> final_call_only es) \<and> failed_marker_ends_loop es)"
| "failed_marker_ends_loop (e # es) = failed_marker_ends_loop es"

definition failed_word_round ::
  "(tool_result list \<times> bool) \<times> script world" where
  "failed_word_round =
     execute_single_tool_round (tool_use_response ''tool_1'' ''history'') mock_tool_manager
       (fresh ([], [Inr (PStr ''Lesson 3: why the 1991 coup FAILED'')]))"

section \<open>The transcript invariant\<close>

text \<open>
  A turn with the content blocks of an engine response is answered by what follows it in
  the transcript when it holds no tool-use block, or when the next turn is a user turn
  whose tool results carry the identifiers of its tool-use blocks, one for one and in the
  same order.
\<close>

definition answered_by :: "message \<Rightarrow> message list \<Rightarrow> bool" where
  "answered_by m rest =
     (case msg_content m of
        Blocks bs \<Rightarrow>
          (tool_use_ids bs = [] \<or>
           (case rest of
              [] \<Rightarrow> False
            | m' # rest' \<Rightarrow>
                role m' = ''user'' \<and>
                (case msg_content m' of
                   ToolResults trs \<Rightarrow> map tool_use_id trs = tool_use_ids bs
                 | Text t \<Rightarrow> False
                 | Blocks bs' \<Rightarrow> False)))
      | Text t \<Rightarrow> True
      | ToolResults trs \<Rightarrow> True)"

fun paired :: "message list \<Rightarrow> bool" where
  "paired [] = True"
| "paired (m # rest) = (answered_by m rest \<and> paired rest)"

text \<open>
  The transcript \<open>msgs'\<close> of the next engine call continues the transcript \<open>msgs\<close>
  of the call that was answered by \<open>resp\<close>: it is \<open>msgs\<close>, then the assistant turn
  with the content of \<open>resp\<close>, then nothing more if \<open>resp\<close> holds no tool-use
  block, and otherwise exactly one user turn whose tool results carry the identifiers of
  the tool-use blocks of \<open>resp\<close>, one for one and in the same order.
\<close>

definition follows_up :: "message list \<Rightarrow> response \<Rightarrow> message list \<Rightarrow> bool" where
  "follows_up msgs resp msgs' =
     (take (Suc (length msgs)) msgs'
        = msgs @ [\<lparr> role = ''assistant'', msg_content = Blocks (content resp) \<rparr>]
      \<and> (case drop (Suc (length msgs)) msgs' of
            [] \<Rightarrow> tool_use_ids (content resp) = []
          | m # ms \<Rightarrow>
              ms = [] \<and> role m = ''user'' \<and>
              (case msg_content m of
                 ToolResults trs \<Rightarrow>
                   trs \<noteq> [] \<and> map tool_use_id trs = tool_use_ids (content resp)
               | Text t \<Rightarrow> False
               | Blocks bs \<Rightarrow> False)))"

fun replayed :: "(request \<times> (exn + response)) list \<Rightarrow> bool" where
  "replayed [] = True"
| "replayed [c] = True"
| "replayed ((req, r) # (req', r') # rest) =
     ((case r of
         Inl e \<Rightarrow> False
       | Inr resp \<Rightarrow> follows_up (messages req) resp (messages req'))
      \<and> replayed ((req', r') # rest))"

section \<open>Responses that do not ask for a tool\<close>

text \<open>
  A trace in which no tool is executed after an engine response that does not ask for a
  tool. Whether a response asks for one is a parameter; its first argument tells the first
  response of the call, which \<open>generate_response\<close> examines, from the later ones,
  which the loop examines.
\<close>

fun quiet_after :: "(bool \<Rightarrow> response \<Rightarrow> bool) \<Rightarrow> bool \<Rightarrow> event list \<Rightarrow> bool" where
  "quiet_after asks initial [] = True"
| "quiet_after asks initial (EngineCall req (Inr resp) # es) =
     ((\<not> asks initial resp \<longrightarrow> tool_outcomes es = []) \<and> quiet_after asks False es)"
| "quiet_after asks initial (e # es) = quiet_after asks initial es"

text \<open>The stop reason of the response says \<open>tool_use\<close>.\<close>

definition by_stop_reason :: "bool \<Rightarrow> response \<Rightarrow> bool" where
  "by_stop_reason initial resp = (stop_reason resp = ''tool_use'')"

text \<open>
  The tests the code makes: \<open>response.stop_reason == "tool_use"\<close> on the first
  response, \<open>any(block.type == "tool_use" for block in current_response.content)\<close> on
  the responses obtained in the loop.
\<close>

definition as_tested :: "bool \<Rightarrow> response \<Rightarrow> bool" where
  "as_tested initial resp =
     (if initial then stop_reason resp = ''tool_use''
      else list_ex is_tool_use (content resp))"

text \<open>
  A response cut off at the token limit inside a tool-use block: its stop reason is
  \<open>max_tokens\<close> and its content holds the tool-use block.
\<close>

definition truncated_response :: response where
  "truncated_response =
     \<lparr> stop_reason = ''max_tokens'',
       content = [ToolUseBlock ''tool_2'' ''search_course_content''
                    [(''query'', PStr ''test2'')]] \<rparr>"

definition truncated_run :: "(error + string) \<times> script world" where
  "truncated_run =
     generate_response mock_generator ''Multi-step query'' None (Some mock_tools)
       (Some mock_tool_manager)
       (fresh ([Inr (tool_use_response ''tool_1'' ''test1''),
                Inr truncated_response,
                Inr (text_response ''Final answer'')],
               [Inr (PStr ''Result 1''), Inr (PStr ''Result 2'')]))"

definition direct_answer_run :: "(error + string) \<times> script world" where
  "direct_answer_run =
     generate_response mock_generator ''What is 2+2?'' None (Some mock_tools)
       (Some mock_tool_manager)
       (fresh ([Inr (text_response ''Direct answer without using tools'')],
               [Inr (PStr ''Result 1'')]))"

section \<open>Calls without tools\<close>

text \<open>
  A call without tools but with a dispatcher, to an engine that answers with stop reason
  \<open>tool_use\<close>.
\<close>

definition unsolicited_tool_use_run :: "(error + string) \<times> script world" where
  "unsolicited_tool_use_run =
     generate_response mock_generator ''What is Python?'' None None
       (Some mock_tool_manager)
       (fresh ([Inr (tool_use_response ''tool_1'' ''python''),
                Inr (text_response ''Python is a programming language'')],
               [Inr (PStr ''Result 1'')]))"

definition no_tools_run :: "(error + string) \<times> script world" where
  "no_tools_run =
     generate_response mock_generator ''What is Python?'' None None None
       (fresh ([Inr (text_response ''This is a direct response'')], []))"

section \<open>Facts about the trace of a run\<close>

lemma engine_requests_append:
  "engine_requests (xs @ ys) = engine_requests xs @ engine_requests ys"
  by (induction xs rule: engine_requests.induct) simp_all

lemma tool_rounds_append: "tool_rounds (xs @ ys) = tool_rounds xs @ tool_rounds ys"
  by (induction xs rule: tool_rounds.induct) simp_all

lemma tool_outcomes_append: "tool_outcomes (xs @ ys) = tool_outcomes xs @ tool_outcomes ys"
  by (induction xs rule: tool_outcomes.induct) simp_all

lemma messages_create_trace:
  "messages_create self req w = (r, w') \<Longrightarrow> trace w' = trace w @ [EngineCall req r]"
  by (auto simp: messages_create_def split: prod.splits)

lemma call_execute_tool_trace:
  "call_execute_tool tm n inp w = (r, w') \<Longrightarrow> trace w' = trace w @ [ToolCall n inp r]"
  by (auto simp: call_execute_tool_def split: prod.splits)

lemma tool_round_loop_trace:
  "tool_round_loop tm bs rs hf w = (out, w') \<Longrightarrow>
     engine_requests (trace w') = engine_requests (trace w)
     \<and> tool_rounds (trace w') = tool_rounds (trace w)"
proof (induction tm bs rs hf w rule: tool_round_loop.induct)
  case (1 tm rs hf w)
  then show ?case by simp
next
  case (2 tm t bs rs hf w)
  then show ?case by simp
next
  case (3 tm i n inp bs rs hf w)
  obtain r w1 where c: "call_execute_tool tm n inp w = (r, w1)"
    by (cases "call_execute_tool tm n inp w")
  have t: "trace w1 = trace w @ [ToolCall n inp r]"
    using c by (rule call_execute_tool_trace)
  show ?case
  proof (cases r)
    case (Inl e)
    with 3 c t show ?thesis
      by (simp add: engine_requests_append tool_rounds_append)
  next
    case (Inr v)
    with 3 c t show ?thesis
      by (simp add: engine_requests_append tool_rounds_append)
  qed
qed

lemma tool_round_loop_spec:
  "tool_round_loop tm bs rs hf w = ((rs', hf'), w') \<Longrightarrow>
     \<exists>tcs. trace w' = trace w @ tcs
       \<and> list_all is_tool_call tcs
       \<and> length (tool_outcomes tcs) = length (tool_use_ids bs)
       \<and> rs' = rs @ map2 result_of (tool_use_ids bs) (tool_outcomes tcs)
       \<and> hf' = (hf \<or> list_ex outcome_failed (tool_outcomes tcs))"
proof (induction tm bs rs hf w rule: tool_round_loop.induct)
  case (1 tm rs hf w)
  then show ?case by simp
next
  case (2 tm t bs rs hf w)
  then show ?case by simp
next
  case (3 tm i n inp bs rs hf w)
  obtain r w1 where c: "call_execute_tool tm n inp w = (r, w1)"
    by (cases "call_execute_tool tm n inp w")
  have t: "trace w1 = trace w @ [ToolCall n inp r]"
    using c by (rule call_execute_tool_trace)
  have step: "tool_round_loop tm bs (rs @ [result_of i r]) (hf \<or> outcome_failed r) w1
                = ((rs', hf'), w')"
    using "3.prems" c by (cases r) simp_all
  have "\<exists>tcs. trace w' = trace w1 @ tcs
       \<and> list_all is_tool_call tcs
       \<and> length (tool_outcomes tcs) = length (tool_use_ids bs)
       \<and> rs' = (rs @ [result_of i r]) @ map2 result_of (tool_use_ids bs) (tool_outcomes tcs)
       \<and> hf' = ((hf \<or> outcome_failed r) \<or> list_ex outcome_failed (tool_outcomes tcs))"
  proof (cases r)
    case (Inl e)
    with "3.IH"(1)[OF c[symmetric]] step show ?thesis by simp
  next
    case (Inr v)
    with "3.IH"(2)[OF c[symmetric]] step show ?thesis by simp
  qed
  then obtain tcs where tcs: "trace w' = trace w1 @ tcs" "list_all is_tool_call tcs"
       "length (tool_outcomes tcs) = length (tool_use_ids bs)"
       "rs' = (rs @ [result_of i r]) @ map2 result_of (tool_use_ids bs) (tool_outcomes tcs)"
       "hf' = ((hf \<or> outcome_failed r) \<or> list_ex outcome_failed (tool_outcomes tcs))"
    by blast
  show ?case
  proof (intro exI conjI)
    show "trace w' = trace w @ (ToolCall n inp r # tcs)" using tcs(1) t by simp
    show "list_all is_tool_call (ToolCall n inp r # tcs)" using tcs(2) by simp
    show "length (tool_outcomes (ToolCall n inp r # tcs)) = length (tool_use_ids (ToolUseBlock i n inp # bs))"
      using tcs(3) by simp
    show "rs' = rs @ map2 result_of (tool_use_ids (ToolUseBlock i n inp # bs)) (tool_outcomes (ToolCall n inp r # tcs))"
      using tcs(4) by simp
    show "hf' = (hf \<or> list_ex outcome_failed (tool_outcomes (ToolCall n inp r # tcs)))"
      using tcs(5) by auto
  qed
qed

lemma execute_single_tool_round_spec:
  "execute_single_tool_round resp tm w = ((trs, hf), w1) \<Longrightarrow>
     \<exists>tcs. trace w1 = trace w @ tcs
       \<and> list_all is_tool_call tcs
       \<and> length (tool_outcomes tcs) = length (tool_use_ids (content resp))
       \<and> trs = map2 result_of (tool_use_ids (content resp)) (tool_outcomes tcs)
       \<and> hf = list_ex outcome_failed (tool_outcomes tcs)"
  unfolding execute_single_tool_round_def
  by (drule tool_round_loop_spec) simp

lemma failures_have_results:
  assumes "execute_single_tool_round resp tm w = ((trs, True), w1)"
  shows "trs \<noteq> []"
proof -
  from execute_single_tool_round_spec[OF assms] obtain tcs where
    l: "length (tool_outcomes tcs) = length (tool_use_ids (content resp))"
    and t: "trs = map2 result_of (tool_use_ids (content resp)) (tool_outcomes tcs)"
    and h: "list_ex outcome_failed (tool_outcomes tcs)"
    by blast
  from h have "tool_outcomes tcs \<noteq> []" by auto
  moreover have "length trs = length (tool_outcomes tcs)" unfolding t using l by simp
  ultimately show ?thesis by auto
qed

declare round_loop.simps [simp del]

lemma case_sum_prod_id:
  "(case p of (Inl e, w2) \<Rightarrow> (Inl e, w2) | (Inr r, w2) \<Rightarrow> (Inr r, w2)) = p"
  by (cases p) (simp split: sum.split)

lemma round_loop_2:
  "round_loop self bp tm 2 msgs cur w =
     (case execute_single_tool_round cur tm (w\<lparr> trace := trace w @ [ToolRound 2] \<rparr>) of
        ((trs, hf), w1) \<Rightarrow>
          messages_create self (forced_final self bp (round_messages msgs cur trs)) w1)"
proof -
  obtain trs hf w1 where
    e: "execute_single_tool_round cur tm (w\<lparr> trace := trace w @ [ToolRound 2] \<rparr>) = ((trs, hf), w1)"
    by (metis prod.exhaust)
  show ?thesis
  proof (cases hf)
    case True
    with e have "trs \<noteq> []" by (auto dest: failures_have_results)
    with e True show ?thesis
      by (subst round_loop.simps)
         (simp add: MAX_ROUNDS_def forced_final_def round_messages_def)
  next
    case False
    with e show ?thesis
      by (subst round_loop.simps)
         (simp add: MAX_ROUNDS_def forced_final_def round_messages_def Let_def
               split: prod.split sum.split)
  qed
qed

lemma round_loop_1:
  "round_loop self bp tm 1 msgs cur w =
     (case execute_single_tool_round cur tm (w\<lparr> trace := trace w @ [ToolRound 1] \<rparr>) of
        ((trs, hf), w1) \<Rightarrow>
          if hf then messages_create self (forced_final self bp (round_messages msgs cur trs)) w1
          else (case messages_create self (with_tools self bp (round_messages msgs cur trs)) w1 of
                  (Inl e, w2) \<Rightarrow> (Inl e, w2)
                | (Inr resp, w2) \<Rightarrow>
                    if list_ex is_tool_use (content resp)
                    then round_loop self bp tm 2 (round_messages msgs cur trs) resp w2
                    else (Inr resp, w2)))"
proof -
  obtain trs hf w1 where
    e: "execute_single_tool_round cur tm (w\<lparr> trace := trace w @ [ToolRound 1] \<rparr>) = ((trs, hf), w1)"
    by (metis prod.exhaust)
  show ?thesis
  proof (cases hf)
    case True
    with e have "trs \<noteq> []" by (auto dest: failures_have_results)
    with e True show ?thesis
      by (subst round_loop.simps)
         (simp add: MAX_ROUNDS_def forced_final_def round_messages_def)
  next
    case False
    obtain r w2 where m: "messages_create self (with_tools self bp (round_messages msgs cur trs)) w1 = (r, w2)"
      by (metis prod.exhaust)
    from e False m show ?thesis
      by (subst round_loop.simps)
         (cases r; cases "trs = []";
          simp add: MAX_ROUNDS_def with_tools_def round_messages_def Let_def
                    numeral_2_eq_2)
  qed
qed

lemma execute_round_events:
  assumes "execute_single_tool_round cur tm w = ((trs, hf), w1)"
  obtains tcs where "tool_events cur tcs" "trace w1 = trace w @ tcs"
    "trs = round_results cur tcs" "hf = round_failed tcs"
  using execute_single_tool_round_spec[OF assms]
  unfolding tool_events_def round_results_def round_failed_def by blast

lemma round_2_shape:
  assumes "round_loop self bp tm 2 msgs cur w = (res, w')"
  shows "\<exists>tcs. tool_events cur tcs
           \<and> trace w' = trace w @ ToolRound 2 # tcs
                @ [EngineCall
                     (forced_final self bp (round_messages msgs cur (round_results cur tcs)))
                     res]"
proof -
  obtain trs hf w1 where
    e: "execute_single_tool_round cur tm (w\<lparr> trace := trace w @ [ToolRound 2] \<rparr>) = ((trs, hf), w1)"
    by (metis prod.exhaust)
  from execute_round_events[OF e] obtain tcs where
    tcs: "tool_events cur tcs" "trace w1 = trace (w\<lparr> trace := trace w @ [ToolRound 2] \<rparr>) @ tcs"
      "trs = round_results cur tcs"
    by blast
  from assms e have
    "messages_create self (forced_final self bp (round_messages msgs cur trs)) w1 = (res, w')"
    by (simp add: round_loop_2)
  from messages_create_trace[OF this] tcs show ?thesis by simp
qed

lemma round_1_shape:
  assumes "round_loop self bp tm 1 msgs cur w = (res, w')"
  shows "\<exists>evs. trace w' = trace w @ evs \<and> loop_trace self bp msgs cur evs res"
proof -
  obtain trs hf w1 where
    e: "execute_single_tool_round cur tm (w\<lparr> trace := trace w @ [ToolRound 1] \<rparr>) = ((trs, hf), w1)"
    by (metis prod.exhaust)
  from execute_round_events[OF e] obtain tcs where
    tcs: "tool_events cur tcs" "trace w1 = trace (w\<lparr> trace := trace w @ [ToolRound 1] \<rparr>) @ tcs"
      "trs = round_results cur tcs" "hf = round_failed tcs"
    by blast
  define msgs1 where "msgs1 = round_messages msgs cur (round_results cur tcs)"
  have t1: "trace w1 = trace w @ ToolRound 1 # tcs" using tcs(2) by simp
  show ?thesis
  proof (cases hf)
    case True
    with assms[unfolded round_loop_1] e tcs(3) have
      "messages_create self (forced_final self bp msgs1) w1 = (res, w')"
      by (simp add: msgs1_def)
    from messages_create_trace[OF this] t1
    have "trace w' = trace w @ (ToolRound 1 # tcs @ [EngineCall (forced_final self bp msgs1) res])"
      by simp
    moreover have "loop_trace self bp msgs cur
         (ToolRound 1 # tcs @ [EngineCall (forced_final self bp msgs1) res]) res"
      unfolding loop_trace_def Let_def
      apply (rule exI[of _ tcs])
      using tcs(1,4) True by (auto simp: msgs1_def)
    ultimately show ?thesis by blast
  next
    case False
    obtain r w2 where m: "messages_create self (with_tools self bp msgs1) w1 = (r, w2)"
      by (metis prod.exhaust)
    have t2: "trace w2 = trace w @ ToolRound 1 # tcs @ [EngineCall (with_tools self bp msgs1) r]"
      using messages_create_trace[OF m] t1 by simp
    have nf: "\<not> round_failed tcs" using False tcs(4) by simp
    show ?thesis
    proof (cases "\<exists>resp. r = Inr resp \<and> list_ex is_tool_use (content resp)")
      case True
      then obtain resp where r: "r = Inr resp" and tu: "list_ex is_tool_use (content resp)"
        by blast
      from assms[unfolded round_loop_1] e False m r tu tcs(3)
      have "round_loop self bp tm 2 msgs1 resp w2 = (res, w')"
        by (simp add: msgs1_def)
      from round_2_shape[OF this] obtain tcs2 where
        tcs2: "tool_events resp tcs2"
          "trace w' = trace w2 @ ToolRound 2 # tcs2
                @ [EngineCall
                     (forced_final self bp (round_messages msgs1 resp (round_results resp tcs2)))
                     res]"
        by blast
      let ?evs = "ToolRound 1 # tcs @ EngineCall (with_tools self bp msgs1) (Inr resp)
                    # ToolRound 2 # tcs2
                    @ [EngineCall
                         (forced_final self bp
                            (round_messages msgs1 resp (round_results resp tcs2))) res]"
      have "trace w' = trace w @ ?evs" using tcs2(2) t2 r by simp
      moreover have "loop_trace self bp msgs cur ?evs res"
        unfolding loop_trace_def Let_def
        apply (rule exI[of _ tcs])
        using tcs(1) nf tu tcs2(1) by (auto simp: msgs1_def)
      ultimately show ?thesis by blast
    next
      case False
      with assms[unfolded round_loop_1] e \<open>\<not> hf\<close> m tcs(3) have "(res, w') = (r, w2)"
        by (cases r) (auto simp: msgs1_def)
      then have rw: "res = r" "w' = w2" by simp_all
      let ?evs = "ToolRound 1 # tcs @ [EngineCall (with_tools self bp msgs1) res]"
      have "trace w' = trace w @ ?evs" using t2 rw by simp
      moreover have "loop_trace self bp msgs cur ?evs res"
        unfolding loop_trace_def Let_def
        apply (rule exI[of _ tcs])
        using tcs(1) nf False rw by (auto simp: msgs1_def)
      ultimately show ?thesis by blast
    qed
  qed
qed

lemma generate_shape:
  assumes "generate_response self q h tls tmo w = (out, w')"
  shows "(\<exists>r0. trace w' = trace w @ [EngineCall (initial_params self q h tls) r0]
            \<and> out = final_text r0
            \<and> (\<forall>resp. r0 = Inr resp \<longrightarrow> tmo = None \<or> stop_reason resp \<noteq> ''tool_use''))
       \<or> (\<exists>resp0 evs res. tmo \<noteq> None \<and> stop_reason resp0 = ''tool_use''
            \<and> trace w' = trace w @ EngineCall (initial_params self q h tls) (Inr resp0) # evs
            \<and> loop_trace self (initial_params self q h tls)
                  (messages (initial_params self q h tls)) resp0 evs res
            \<and> out = final_text res)"
proof -
  define req0 where "req0 = initial_params self q h tls"
  obtain r0 w0 where m: "messages_create self req0 w = (r0, w0)"
    by (metis prod.exhaust)
  have t0: "trace w0 = trace w @ [EngineCall req0 r0]"
    using m by (rule messages_create_trace)
  show ?thesis
  proof (cases "\<exists>resp tm. r0 = Inr resp \<and> tmo = Some tm \<and> stop_reason resp = ''tool_use''")
    case True
    then obtain resp0 tm where r0: "r0 = Inr resp0" and tm: "tmo = Some tm"
      and sr: "stop_reason resp0 = ''tool_use''" by blast
    obtain res w1 where l: "round_loop self req0 tm 1 (messages req0) resp0 w0 = (res, w1)"
      by (metis prod.exhaust)
    from assms m r0 tm sr l have o: "out = final_text res" and w: "w' = w1"
      by (cases res; simp add: generate_response_def handle_sequential_tool_execution_def
            req0_def[symmetric] Let_def)+
    from round_1_shape[OF l] obtain evs where
      evs: "trace w1 = trace w0 @ evs" "loop_trace self req0 (messages req0) resp0 evs res"
      by blast
    have "trace w' = trace w @ EngineCall req0 (Inr resp0) # evs"
      using evs(1) t0 r0 w by simp
    with evs(2) o tm sr show ?thesis unfolding req0_def by blast
  next
    case False
    with assms m have "out = final_text r0 \<and> w' = w0"
      by (cases r0; cases tmo)
         (auto simp: generate_response_def req0_def[symmetric] Let_def split: if_splits)
    moreover from False have "\<forall>resp. r0 = Inr resp \<longrightarrow> tmo = None \<or> stop_reason resp \<noteq> ''tool_use''"
      by auto
    ultimately show ?thesis using t0 unfolding req0_def by blast
  qed
qed

section \<open>A tool-use response without a dispatcher\<close>

text \<open>
  C10: when the first engine response has stop reason \<open>tool_use\<close> but no dispatcher
  was supplied, \<open>generate_response\<close> executes no tool and makes no further engine
  call: the only event is the first engine call, and the result is
  \<open>response.content[0].text\<close>. That is the text of the first block exactly when the
  first block is a text block; on a response made of tool-use blocks only, the attribute
  access raises.
\<close>

theorem generate_without_dispatcher:
  assumes "messages_create self (initial_params self q h tls) w = (Inr resp, w1)"
      and "stop_reason resp = ''tool_use''"
  shows "generate_response self q h tls None w = (first_text resp, w1)
         \<and> trace w1 = trace w @ [EngineCall (initial_params self q h tls) (Inr resp)]
         \<and> (\<forall>t. first_text resp = Inr t \<longleftrightarrow> (\<exists>bs. content resp = TextBlock t # bs))
         \<and> (content resp \<noteq> [] \<and> list_all is_tool_use (content resp)
              \<longrightarrow> first_text resp = Inl AttributeError)"
proof (intro conjI)
  show "generate_response self q h tls None w = (first_text resp, w1)"
    using assms(1) by (simp add: generate_response_def Let_def)
  show "trace w1 = trace w @ [EngineCall (initial_params self q h tls) (Inr resp)]"
    using assms(1) by (rule messages_create_trace)
  show "\<forall>t. first_text resp = Inr t \<longleftrightarrow> (\<exists>bs. content resp = TextBlock t # bs)"
    by (auto split: list.splits content_block.splits)
  show "content resp \<noteq> [] \<and> list_all is_tool_use (content resp)
              \<longrightarrow> first_text resp = Inl AttributeError"
    by (auto split: list.splits content_block.splits)
qed

lemma mock_first_call:
  "messages_create mock_generator req (fresh (r # rs, ts))
     = (r, \<lparr> ext = (rs, ts), trace = [EngineCall req r] \<rparr>)"
  by (simp add: messages_create_def mock_generator_def mock_client_def fresh_def)

theorem generate_without_dispatcher_witness:
  "generate_response mock_generator ''Search for content'' None (Some mock_tools) None
       (fresh ([Inr (tool_use_response ''tool_123'' ''test'')], []))
     = (Inl AttributeError,
        \<lparr> ext = ([], []),
          trace = [EngineCall
                     (initial_params mock_generator ''Search for content'' None (Some mock_tools))
                     (Inr (tool_use_response ''tool_123'' ''test''))] \<rparr>)"
  using generate_without_dispatcher
          [of mock_generator "''Search for content''" None "Some mock_tools"
              "fresh ([Inr (tool_use_response ''tool_123'' ''test'')], [])"
              "tool_use_response ''tool_123'' ''test''"
              "\<lparr> ext = ([], []),
                 trace = [EngineCall
                     (initial_params mock_generator ''Search for content'' None (Some mock_tools))
                     (Inr (tool_use_response ''tool_123'' ''test''))] \<rparr>"]
  by (simp add: mock_first_call tool_use_response_def)

section \<open>The filtered vector index\<close>

text \<open>
  C9: the filter builder returns no filter when neither a course title nor a lesson number
  is given, the single equality clause on \<open>course_title\<close> for a title only, the
  single equality clause on \<open>lesson_number\<close> for a lesson number only, and the
  conjunction \<open>$and\<close> of exactly those two clauses, in that order, for both.
\<close>

theorem build_filter_cases:
  "build_filter None None = None
   \<and> build_filter (Some c) None = Some (Eq ''course_title'' (FStr c))
   \<and> build_filter None (Some n) = Some (Eq ''lesson_number'' (FInt n))
   \<and> build_filter (Some c) (Some n)
       = Some (And [Eq ''course_title'' (FStr c), Eq ''lesson_number'' (FInt n)])"
  by (simp add: build_filter_def)

text \<open>
  C8: when the course name of a search does not resolve against the catalog (the lookup
  raises, or it returns no entry), \<open>search\<close> returns the empty result set with the
  error \<open>No course found matching '<course_name>'\<close>, and no query is made on the
  content collection.
\<close>

theorem search_unresolved_course:
  assumes "case fst (catalog_query vs name (db w)) of Inl e \<Rightarrow> True | Inr titles \<Rightarrow> titles = []"
  shows "fst (search vs query (Some name) lesson w)
           = \<lparr> rows = [],
               error = Some (''No course found matching '' @ [CHR 0x27] @ name @ [CHR 0x27]) \<rparr>
         \<and> content_queries (snd (search vs query (Some name) lesson w)) = content_queries w"
proof -
  obtain r s' where c: "catalog_query vs name (db w) = (r, s')"
    by (metis prod.exhaust)
  with assms have "resolve_course_name vs name w = (None, w\<lparr> db := s' \<rparr>)"
    by (auto simp: resolve_course_name_def split: sum.splits list.splits)
  then show ?thesis by (simp add: search_def)
qed

theorem search_unresolved_course_witness:
  "fst (search empty_catalog_store ''x'' (Some ''NoSuchCourse'') None
          \<lparr> db = (), content_queries = [] \<rparr>)
     = \<lparr> rows = [], error = Some (''No course found matching '' @ [CHR 0x27] @ ''NoSuchCourse'' @ [CHR 0x27]) \<rparr>
   \<and> content_queries (snd (search empty_catalog_store ''x'' (Some ''NoSuchCourse'') None
          \<lparr> db = (), content_queries = [] \<rparr>)) = []
   \<and> fst (search failing_catalog_store ''x'' (Some ''NoSuchCourse'') None
          \<lparr> db = (), content_queries = [] \<rparr>)
     = \<lparr> rows = [], error = Some (''No course found matching '' @ [CHR 0x27] @ ''NoSuchCourse'' @ [CHR 0x27]) \<rparr>"
  using search_unresolved_course
          [of empty_catalog_store "''NoSuchCourse''" "\<lparr> db = (), content_queries = [] \<rparr>"
              "''x''" None]
        search_unresolved_course
          [of failing_catalog_store "''NoSuchCourse''" "\<lparr> db = (), content_queries = [] \<rparr>"
              "''x''" None]
  by (simp add: empty_catalog_store_def failing_catalog_store_def)

section \<open>Tool calls in a trace\<close>

lemma tool_calls_projections:
  "list_all is_tool_call tcs \<Longrightarrow> engine_requests tcs = [] \<and> tool_rounds tcs = []"
proof (induction tcs)
  case Nil
  then show ?case by simp
next
  case (Cons e tcs)
  then show ?case by (cases e) simp_all
qed

lemma tool_calls_engine_requests [simp]:
  "list_all is_tool_call tcs \<Longrightarrow> engine_requests (tcs @ es) = engine_requests es"
  by (simp add: engine_requests_append tool_calls_projections)

lemma tool_calls_tool_rounds [simp]:
  "list_all is_tool_call tcs \<Longrightarrow> tool_rounds (tcs @ es) = tool_rounds es"
  by (simp add: tool_rounds_append tool_calls_projections)

lemma forced_final_no_tools [simp]:
  "tools (forced_final self bp msgs) = None" "tool_choice (forced_final self bp msgs) = None"
  by (simp_all add: forced_final_def base_params_def)

section \<open>The round limit\<close>

text \<open>
  C1: in every call of \<open>generate_response\<close>, whatever the engine answers, at most 2
  tool-execution rounds run and at most 3 engine calls are made, and a third engine call,
  when it is made, carries neither \<open>tools\<close> nor \<open>tool_choice\<close>.
\<close>

theorem round_limit:
  assumes "generate_response self q h tls tmo (fresh s) = (out, w')"
  shows "length (tool_rounds (trace w')) \<le> 2
         \<and> length (engine_requests (trace w')) \<le> 3
         \<and> (length (engine_requests (trace w')) = 3 \<longrightarrow>
               tools (engine_requests (trace w') ! 2) = None
               \<and> tool_choice (engine_requests (trace w') ! 2) = None)"
proof -
  from generate_shape[OF assms]
  consider
    (direct) r0 where "trace w' = [EngineCall (initial_params self q h tls) r0]"
  | (loop) resp0 evs res where
      "trace w' = EngineCall (initial_params self q h tls) (Inr resp0) # evs"
      "loop_trace self (initial_params self q h tls)
         (messages (initial_params self q h tls)) resp0 evs res"
    by (auto simp: fresh_def)
  then show ?thesis
  proof cases
    case direct
    then show ?thesis by simp
  next
    case loop
    from loop(2) show ?thesis
      unfolding loop_trace_def Let_def tool_events_def loop(1)
      by (auto simp: nth_Cons')
  qed
qed

lemmas run_defs =
  generate_response_def handle_sequential_tool_execution_def
  round_loop_1 [unfolded One_nat_def] round_loop_2
  execute_single_tool_round_def messages_create_def call_execute_tool_def
  mock_generator_def mock_client_def mock_tool_manager_def fresh_def initial_params_def
  tool_use_response_def text_response_def Let_def lower_def lower_char_def
  mock_tools_def forced_final_def with_tools_def round_messages_def base_params_def

lemma max_rounds_run_value:
  "fst max_rounds_run = Inr ''Final answer after max rounds''"
  "map tools (engine_requests (trace (snd max_rounds_run)))
     = [Some mock_tools, Some mock_tools, None]"
  "map tool_choice (engine_requests (trace (snd max_rounds_run)))
     = [Some [(''type'', ''auto'')], Some [(''type'', ''auto'')], None]"
  "tool_rounds (trace (snd max_rounds_run)) = [1, 2]"
  "tool_outcomes (trace (snd max_rounds_run)) = [Inr (PStr ''Result 1''), Inr (PStr ''Result 2'')]"
  by (simp_all add: max_rounds_run_def run_defs max_rounds_script_def)

theorem round_limit_witness:
  "length (tool_rounds (trace (snd max_rounds_run))) = 2
   \<and> length (engine_requests (trace (snd max_rounds_run))) = 3
   \<and> tools (engine_requests (trace (snd max_rounds_run)) ! 2) = None
   \<and> tool_choice (engine_requests (trace (snd max_rounds_run)) ! 2) = None"
proof -
  have run: "generate_response mock_generator ''Multi-step query'' None (Some mock_tools)
       (Some mock_tool_manager) (fresh max_rounds_script)
     = (fst max_rounds_run, snd max_rounds_run)"
    by (simp add: max_rounds_run_def)
  have three: "length (engine_requests (trace (snd max_rounds_run))) = 3"
    using max_rounds_run_value(2) by (metis length_map length_Cons list.size(3) numeral_3_eq_3)
  have two: "length (tool_rounds (trace (snd max_rounds_run))) = 2"
    by (simp add: max_rounds_run_value(4))
  from round_limit[OF run] three two show ?thesis by simp
qed

lemma tool_calls_engine_calls [simp]:
  "list_all is_tool_call tcs \<Longrightarrow> engine_calls (tcs @ es) = engine_calls es"
proof (induction tcs)
  case Nil
  then show ?case by simp
next
  case (Cons e tcs)
  then show ?case by (cases e) simp_all
qed

lemma tool_calls_until_engine_call [simp]:
  "list_all is_tool_call tcs \<Longrightarrow>
     takeWhile (\<lambda>e. \<not> is_engine_call e) (tcs @ EngineCall req r # rest) = tcs"
proof (induction tcs)
  case Nil
  then show ?case by simp
next
  case (Cons e tcs)
  then show ?case by (cases e) simp_all
qed

lemma messages_forced_final [simp]: "messages (forced_final self bp msgs) = msgs"
  by (simp add: forced_final_def)

lemma messages_with_tools [simp]: "messages (with_tools self bp msgs) = msgs"
  by (simp add: with_tools_def)

lemma messages_initial_params [simp]:
  "messages (initial_params self q h tls) = [\<lparr> role = ''user'', msg_content = Text q \<rparr>]"
  by (simp add: initial_params_def Let_def split: option.split)

lemma failed_round_has_results:
  assumes "tool_events cur tcs" "round_failed tcs"
  shows "round_results cur tcs \<noteq> []"
proof -
  from assms(2) have "tool_outcomes tcs \<noteq> []" by (auto simp: round_failed_def)
  moreover have "length (round_results cur tcs) = length (tool_outcomes tcs)"
    using assms(1) by (simp add: round_results_def tool_events_def)
  ultimately show ?thesis by auto
qed

section \<open>A tool failure in round 1\<close>

text \<open>
  C2: in every call of \<open>generate_response\<close> in which a tool execution of round 1
  fails (it raises, or its result is flagged as a failure), the first engine response had
  stop reason \<open>tool_use\<close> and exactly 2 engine calls are made: the initial one and
  a final one, which carries neither \<open>tools\<close> nor \<open>tool_choice\<close> and whose
  message list is the query, the assistant turn of the first response and one user turn
  with the tool results of the round, the error texts among them. The text of that final
  response is what the call returns.
\<close>

theorem tool_failure_in_round_1:
  assumes run: "generate_response self q h tls tmo (fresh s) = (out, w')"
      and fail: "list_ex outcome_failed (round1_outcomes (trace w'))"
  shows "length (engine_requests (trace w')) = 2
         \<and> tools (engine_requests (trace w') ! 1) = None
         \<and> tool_choice (engine_requests (trace w') ! 1) = None
         \<and> out = final_text (snd (engine_calls (trace w') ! 1))
         \<and> (\<exists>resp0. engine_calls (trace w') ! 0 = (initial_params self q h tls, Inr resp0)
               \<and> stop_reason resp0 = ''tool_use''
               \<and> length (round1_outcomes (trace w')) = length (tool_use_ids (content resp0))
               \<and> messages (engine_requests (trace w') ! 1)
                   = [\<lparr> role = ''user'', msg_content = Text q \<rparr>,
                      \<lparr> role = ''assistant'', msg_content = Blocks (content resp0) \<rparr>,
                      \<lparr> role = ''user'',
                        msg_content =
                          ToolResults (map2 result_of (tool_use_ids (content resp0))
                                         (round1_outcomes (trace w'))) \<rparr>])"
proof -
  let ?req0 = "initial_params self q h tls"
  from generate_shape[OF run]
  consider
    (direct) r0 where "trace w' = [EngineCall ?req0 r0]"
  | (loop) resp0 evs res where
      "stop_reason resp0 = ''tool_use''"
      "trace w' = EngineCall ?req0 (Inr resp0) # evs"
      "loop_trace self ?req0 (messages ?req0) resp0 evs res"
      "out = final_text res"
    by (auto simp: fresh_def)
  then show ?thesis
  proof cases
    case direct
    with fail show ?thesis by (simp add: round1_outcomes_def)
  next
    case loop
    from loop(3) obtain tcs where tcs: "tool_events resp0 tcs"
      and shape:
        "(round_failed tcs
            \<and> evs = ToolRound 1 # tcs
                 @ [EngineCall (forced_final self ?req0
                      (round_messages (messages ?req0) resp0 (round_results resp0 tcs))) res])
         \<or> (\<not> round_failed tcs \<and> (\<exists>req r rest. evs = ToolRound 1 # tcs @ EngineCall req r # rest))"
      unfolding loop_trace_def Let_def by blast
    have tc: "list_all is_tool_call tcs" using tcs by (simp add: tool_events_def)
    have r1: "round1_outcomes (trace w') = tool_outcomes tcs"
      using shape tc unfolding loop(2) round1_outcomes_def by auto
    with fail have f: "round_failed tcs" by (simp add: round_failed_def)
    with shape have evs: "evs = ToolRound 1 # tcs
                 @ [EngineCall (forced_final self ?req0
                      (round_messages (messages ?req0) resp0 (round_results resp0 tcs))) res]"
      by blast
    have ne: "round_results resp0 tcs \<noteq> []"
      using tcs f by (rule failed_round_has_results)
    have len: "length (tool_outcomes tcs) = length (tool_use_ids (content resp0))"
      using tcs by (simp add: tool_events_def)
    show ?thesis
      unfolding r1 unfolding loop(2) evs
      using tc ne len loop(1,4)
      by (simp add: round_messages_def round_results_def)
  qed
qed

lemma tool_failure_run_value:
  "fst tool_failure_run = Inr ''I encountered an error with the search...''"
  "round1_outcomes (trace (snd tool_failure_run))
     = [Inl (Exception ''Database connection failed'')]"
  "map tools (engine_requests (trace (snd tool_failure_run))) = [Some mock_tools, None]"
  "tool_rounds (trace (snd tool_failure_run)) = [1]"
  by (simp_all add: tool_failure_run_def run_defs tool_failure_script_def round1_outcomes_def)

theorem tool_failure_in_round_1_witness:
  "list_ex outcome_failed (round1_outcomes (trace (snd tool_failure_run)))
   \<and> length (engine_requests (trace (snd tool_failure_run))) = 2
   \<and> tools (engine_requests (trace (snd tool_failure_run)) ! 1) = None
   \<and> tool_choice (engine_requests (trace (snd tool_failure_run)) ! 1) = None
   \<and> messages (engine_requests (trace (snd tool_failure_run)) ! 1)
       = [\<lparr> role = ''user'', msg_content = Text ''Search for content'' \<rparr>,
          \<lparr> role = ''assistant'',
            msg_content = Blocks (content (tool_use_response ''tool_123'' ''test'')) \<rparr>,
          \<lparr> role = ''user'',
            msg_content =
              ToolResults
                [\<lparr> tool_use_id = ''tool_123'',
                   result_content =
                     PStr ''Tool execution failed: Database connection failed'' \<rparr>] \<rparr>]"
proof -
  have run: "generate_response mock_generator ''Search for content'' None (Some mock_tools)
       (Some mock_tool_manager) (fresh tool_failure_script)
     = (fst tool_failure_run, snd tool_failure_run)"
    by (simp add: tool_failure_run_def)
  have fail: "list_ex outcome_failed (round1_outcomes (trace (snd tool_failure_run)))"
    by (simp add: tool_failure_run_value(2))
  have first: "engine_calls (trace (snd tool_failure_run)) ! 0
      = (initial_params mock_generator ''Search for content'' None (Some mock_tools),
         Inr (tool_use_response ''tool_123'' ''test''))"
    by (simp add: tool_failure_run_def run_defs tool_failure_script_def)
  from tool_failure_in_round_1[OF run fail] first fail show ?thesis
    by (auto simp: tool_failure_run_value(2) tool_use_response_def)
qed

section \<open>Exceptions of tools\<close>

lemma round_result_at:
  assumes "tool_events cur tcs" "k < length (tool_outcomes tcs)"
  shows "round_results cur tcs ! k
           = result_of (tool_use_ids (content cur) ! k) (tool_outcomes tcs ! k)"
  using assms by (simp add: round_results_def tool_events_def)

lemma length_round_results:
  "tool_events cur tcs \<Longrightarrow> length (round_results cur tcs) = length (tool_use_ids (content cur))"
  by (simp add: round_results_def tool_events_def)

lemma round_failed_at:
  assumes "k < length (tool_outcomes tcs)" "outcome_failed (tool_outcomes tcs ! k)"
  shows "round_failed tcs"
  using assms unfolding round_failed_def list_ex_iff by (meson nth_mem)

lemma first_text_not_raised: "first_text resp \<noteq> Inl (Raised x)"
  by (simp split: list.split content_block.split)

lemma final_text_raised: "final_text r = Inl (Raised x) \<Longrightarrow> r = Inl x"
  by (cases r) (simp_all add: first_text_not_raised del: first_text.simps)

lemma generate_raises_engine_exception:
  assumes "generate_response self q h tls tmo w = (Inl (Raised x), w')"
  shows "\<exists>req. last (trace w') = EngineCall req (Inl x)"
proof -
  let ?req0 = "initial_params self q h tls"
  from generate_shape[OF assms]
  consider
    (direct) r0 where "trace w' = trace w @ [EngineCall ?req0 r0]"
      "Inl (Raised x) = final_text r0"
  | (loop) resp0 evs res where
      "trace w' = trace w @ EngineCall ?req0 (Inr resp0) # evs"
      "loop_trace self ?req0 (messages ?req0) resp0 evs res"
      "Inl (Raised x) = final_text res"
    by auto
  then show ?thesis
  proof cases
    case direct
    from direct(2) have "r0 = Inl x" by (simp add: final_text_raised)
    with direct(1) show ?thesis by simp
  next
    case loop
    from loop(3) have "res = Inl x" by (simp add: final_text_raised)
    moreover from loop(2) have "\<exists>pre req. evs = pre @ [EngineCall req res]"
      unfolding loop_trace_def Let_def
      by (metis append_Cons append_assoc)
    ultimately show ?thesis using loop(1) by auto
  qed
qed

text \<open>
  C5: an exception raised by the execution of a tool call is caught inside the round: the
  round still returns, the result at the position of that call carries the identifier of
  its tool-use block and the content \<open>Tool execution failed: \<close> followed by
  \<open>str(e)\<close>, and the round is marked as failed. Towards the caller of
  \<open>generate_response\<close>: when the call raises an exception of a collaborator, it is
  the exception that the last engine call raised, never one of a tool.
\<close>

theorem tool_exception_caught:
  "(execute_single_tool_round resp tm (fresh s) = ((results, has_failures), w1)
      \<and> k < length (tool_outcomes (trace w1)) \<and> tool_outcomes (trace w1) ! k = Inl e
    \<longrightarrow> length results = length (tool_use_ids (content resp))
        \<and> length (tool_outcomes (trace w1)) = length results
        \<and> results ! k
            = \<lparr> tool_use_id = tool_use_ids (content resp) ! k,
                result_content = PStr (''Tool execution failed: '' @ str e) \<rparr>
        \<and> has_failures)
   \<and> (generate_response self q h tls tmo (fresh s') = (Inl (Raised x), w')
    \<longrightarrow> (\<exists>req. last (trace w') = EngineCall req (Inl x)))"
proof (intro conjI impI)
  assume a: "execute_single_tool_round resp tm (fresh s) = ((results, has_failures), w1)
      \<and> k < length (tool_outcomes (trace w1)) \<and> tool_outcomes (trace w1) ! k = Inl e"
  then have run: "execute_single_tool_round resp tm (fresh s) = ((results, has_failures), w1)"
    by simp
  from execute_round_events[OF run] obtain tcs where
    tcs: "tool_events resp tcs" "trace w1 = trace (fresh s) @ tcs"
      "results = round_results resp tcs" "has_failures = round_failed tcs"
    by blast
  have t: "trace w1 = tcs" using tcs(2) by (simp add: fresh_def)
  from a t have k: "k < length (tool_outcomes tcs)" and o: "tool_outcomes tcs ! k = Inl e"
    by simp_all
  show "length results = length (tool_use_ids (content resp))"
    using tcs(1,3) by (simp add: length_round_results)
  show "length (tool_outcomes (trace w1)) = length results"
    using tcs(1,3) t by (simp add: length_round_results tool_events_def)
  show "results ! k
            = \<lparr> tool_use_id = tool_use_ids (content resp) ! k,
                result_content = PStr (''Tool execution failed: '' @ str e) \<rparr>"
    using round_result_at[OF tcs(1) k] o tcs(3) by simp
  show has_failures
    using round_failed_at[OF k] o tcs(4) by simp
next
  assume "generate_response self q h tls tmo (fresh s') = (Inl (Raised x), w')"
  then show "\<exists>req. last (trace w') = EngineCall req (Inl x)"
    by (rule generate_raises_engine_exception)
qed

lemma raising_tool_round_value:
  "fst raising_tool_round
     = ([\<lparr> tool_use_id = ''tool_123'',
           result_content = PStr ''Tool execution failed: Database connection failed'' \<rparr>],
        True)"
  "tool_outcomes (trace (snd raising_tool_round))
     = [Inl (Exception ''Database connection failed'')]"
  by (simp_all add: raising_tool_round_def run_defs)

lemma engine_down_run_value:
  "fst engine_down_run = Inl (Raised (Exception ''Connection error''))"
  "tool_outcomes (trace (snd engine_down_run))
     = [Inl (Exception ''Database connection failed'')]"
  by (simp_all add: engine_down_run_def run_defs)

theorem tool_exception_caught_witness:
  "tool_outcomes (trace (snd raising_tool_round)) ! 0
     = Inl (Exception ''Database connection failed'')
   \<and> fst (fst raising_tool_round) ! 0
       = \<lparr> tool_use_id = ''tool_123'',
           result_content = PStr ''Tool execution failed: Database connection failed'' \<rparr>
   \<and> snd (fst raising_tool_round)
   \<and> fst engine_down_run = Inl (Raised (Exception ''Connection error''))
   \<and> (\<exists>req. last (trace (snd engine_down_run))
               = EngineCall req (Inl (Exception ''Connection error'')))"
proof -
  have round: "execute_single_tool_round (tool_use_response ''tool_123'' ''test'')
       mock_tool_manager (fresh ([], [Inl (Exception ''Database connection failed'')]))
     = ((fst (fst raising_tool_round), snd (fst raising_tool_round)), snd raising_tool_round)"
    by (simp add: raising_tool_round_def)
  have k: "0 < length (tool_outcomes (trace (snd raising_tool_round)))"
    and o: "tool_outcomes (trace (snd raising_tool_round)) ! 0
              = Inl (Exception ''Database connection failed'')"
    by (simp_all add: raising_tool_round_value(2))
  have run: "generate_response mock_generator ''Search for content'' None (Some mock_tools)
       (Some mock_tool_manager)
       (fresh ([Inr (tool_use_response ''tool_123'' ''test''),
                Inl (Exception ''Connection error'')],
               [Inl (Exception ''Database connection failed'')]))
     = (Inl (Raised (Exception ''Connection error'')), snd engine_down_run)"
    using engine_down_run_value(1) by (simp add: engine_down_run_def prod_eq_iff)
  from tool_exception_caught
         [where resp = "tool_use_response ''tool_123'' ''test''" and tm = mock_tool_manager
            and s = "([], [Inl (Exception ''Database connection failed'')])"
            and results = "fst (fst raising_tool_round)"
            and has_failures = "snd (fst raising_tool_round)"
            and ?w1.0 = "snd raising_tool_round" and k = 0
            and e = "Exception ''Database connection failed''"
            and self = mock_generator and q = "''Search for content''" and h = None
            and tls = "Some mock_tools" and tmo = "Some mock_tool_manager"
            and s' = "([Inr (tool_use_response ''tool_123'' ''test''),
                        Inl (Exception ''Connection error'')],
                       [Inl (Exception ''Database connection failed'')])"
            and x = "Exception ''Connection error''" and w' = "snd engine_down_run"]
       round k o run
  show ?thesis
    by (simp add: engine_down_run_value(1) tool_use_response_def)
qed

section \<open>Results that mention a failure\<close>

lemma is_prefix_iff: "is_prefix sub s \<longleftrightarrow> (\<exists>post. s = sub @ post)"
  by (induction sub s rule: is_prefix.induct) auto

lemma str_in_iff: "str_in sub s \<longleftrightarrow> (\<exists>pre post. s = pre @ sub @ post)"
proof (induction s)
  case Nil
  then show ?case by auto
next
  case (Cons c cs)
  show ?case
  proof
    assume "str_in sub (c # cs)"
    then consider "is_prefix sub (c # cs)" | "str_in sub cs" by auto
    then show "\<exists>pre post. c # cs = pre @ sub @ post"
    proof cases
      case 1
      then obtain post where "c # cs = sub @ post" by (auto simp: is_prefix_iff)
      then have "c # cs = [] @ sub @ post" by simp
      then show ?thesis by blast
    next
      case 2
      with Cons obtain pre post where "cs = pre @ sub @ post" by blast
      then have "c # cs = (c # pre) @ sub @ post" by simp
      then show ?thesis by blast
    qed
  next
    assume "\<exists>pre post. c # cs = pre @ sub @ post"
    then obtain pre post where e: "c # cs = pre @ sub @ post" by blast
    show "str_in sub (c # cs)"
    proof (cases pre)
      case Nil
      with e have "is_prefix sub (c # cs)" by (auto simp: is_prefix_iff)
      then show ?thesis by simp
    next
      case (Cons p pre')
      with e have "cs = pre' @ sub @ post" by simp
      with Cons.IH have "str_in sub cs" by blast
      then show ?thesis by simp
    qed
  qed
qed

lemma final_call_after_tool_calls:
  "list_all is_tool_call tcs \<Longrightarrow> tools req = None \<Longrightarrow> tool_choice req = None \<Longrightarrow>
     final_call_only (tcs @ [EngineCall req r])"
proof (induction tcs)
  case Nil
  then show ?case by simp
next
  case (Cons e tcs)
  then show ?case by (cases e) simp_all
qed

lemma failed_round_ends_loop:
  "list_all is_tool_call tcs \<Longrightarrow> tools req = None \<Longrightarrow> tool_choice req = None \<Longrightarrow>
     failed_marker_ends_loop (tcs @ [EngineCall req r])"
proof (induction tcs)
  case Nil
  then show ?case by simp
next
  case (Cons e tcs)
  then have rest: "failed_marker_ends_loop (tcs @ [EngineCall req r])"
    and fin: "final_call_only (tcs @ [EngineCall req r])"
    by (simp_all add: final_call_after_tool_calls)
  from Cons.prems(1) obtain n inp out where e: "e = ToolCall n inp out"
    by (cases e) simp_all
  show ?case
  proof (cases out)
    case (Inl x)
    with e rest show ?thesis by simp
  next
    case (Inr v)
    with e rest fin show ?thesis by (cases v) simp_all
  qed
qed

lemma clean_round_skipped:
  "list_all is_tool_call tcs \<Longrightarrow> \<not> round_failed tcs \<Longrightarrow>
     failed_marker_ends_loop (tcs @ es) = failed_marker_ends_loop es"
proof (induction tcs)
  case Nil
  then show ?case by simp
next
  case (Cons e tcs)
  from Cons.prems(1) obtain n inp out where e: "e = ToolCall n inp out"
    by (cases e) simp_all
  from Cons.prems(2) e have nf: "\<not> outcome_failed out" and nr: "\<not> round_failed tcs"
    by (simp_all add: round_failed_def)
  from Cons.IH Cons.prems(1) nr
  have rest: "failed_marker_ends_loop (tcs @ es) = failed_marker_ends_loop es" by simp
  show ?case
  proof (cases out)
    case (Inl x)
    with nf show ?thesis by simp
  next
    case (Inr v)
    with e rest nf show ?thesis by (cases v) simp_all
  qed
qed

lemma generate_failed_marker:
  assumes "generate_response self q h tls tmo (fresh s) = (out, w')"
  shows "failed_marker_ends_loop (trace w')"
proof -
  let ?req0 = "initial_params self q h tls"
  from generate_shape[OF assms]
  consider
    (direct) r0 where "trace w' = [EngineCall ?req0 r0]"
  | (loop) resp0 evs res where
      "trace w' = EngineCall ?req0 (Inr resp0) # evs"
      "loop_trace self ?req0 (messages ?req0) resp0 evs res"
    by (auto simp: fresh_def)
  then show ?thesis
  proof cases
    case direct
    then show ?thesis by simp
  next
    case loop
    from loop(2) have "failed_marker_ends_loop evs"
      unfolding loop_trace_def Let_def tool_events_def
      by (auto simp: failed_round_ends_loop clean_round_skipped)
    with loop(1) show ?thesis by simp
  qed
qed

text \<open>
  C6: a tool call that returns a string containing \<open>failed\<close>, compared without regard
  to letter case, marks its round as failed, whatever else the string says; its result is
  passed on unchanged. In every run of \<open>generate_response\<close>, such a tool call is
  followed by the remaining tool calls of its round and then by exactly one engine call,
  which carries neither \<open>tools\<close> nor \<open>tool_choice\<close>, and by nothing else.
\<close>

theorem failed_marker_terminates_loop:
  "(execute_single_tool_round resp tm (fresh s) = ((results, has_failures), w1)
      \<and> k < length (tool_outcomes (trace w1))
      \<and> tool_outcomes (trace w1) ! k = Inr (PStr t) \<and> str_in ''failed'' (lower t)
    \<longrightarrow> has_failures
        \<and> results ! k
            = \<lparr> tool_use_id = tool_use_ids (content resp) ! k, result_content = PStr t \<rparr>)
   \<and> (generate_response self q h tls tmo (fresh s') = (out, w')
    \<longrightarrow> failed_marker_ends_loop (trace w'))"
proof (intro conjI impI)
  assume a: "execute_single_tool_round resp tm (fresh s) = ((results, has_failures), w1)
      \<and> k < length (tool_outcomes (trace w1))
      \<and> tool_outcomes (trace w1) ! k = Inr (PStr t) \<and> str_in ''failed'' (lower t)"
  then have run: "execute_single_tool_round resp tm (fresh s) = ((results, has_failures), w1)"
    by simp
  from execute_round_events[OF run] obtain tcs where
    tcs: "tool_events resp tcs" "trace w1 = trace (fresh s) @ tcs"
      "results = round_results resp tcs" "has_failures = round_failed tcs"
    by blast
  have t: "trace w1 = tcs" using tcs(2) by (simp add: fresh_def)
  from a t have k: "k < length (tool_outcomes tcs)"
    and o: "tool_outcomes tcs ! k = Inr (PStr t)" and f: "str_in ''failed'' (lower t)"
    by simp_all
  show has_failures
    using round_failed_at[OF k] o f tcs(4) by simp
  show "results ! k
          = \<lparr> tool_use_id = tool_use_ids (content resp) ! k, result_content = PStr t \<rparr>"
    using round_result_at[OF tcs(1) k] o tcs(3) by simp
next
  assume "generate_response self q h tls tmo (fresh s') = (out, w')"
  then show "failed_marker_ends_loop (trace w')"
    by (rule generate_failed_marker)
qed

lemma failed_word_value:
  "str_in ''failed'' (lower ''Lesson 3: why the 1991 coup FAILED'')"
  "tool_outcomes (trace (snd failed_word_round))
     = [Inr (PStr ''Lesson 3: why the 1991 coup FAILED'')]"
  "fst failed_word_run = Inr ''The coup did not succeed.''"
  "map tools (engine_requests (trace (snd failed_word_run))) = [Some mock_tools, None]"
  "tool_outcomes (trace (snd failed_word_run))
     = [Inr (PStr ''Lesson 3: why the 1991 coup FAILED'')]"
  by code_simp+

theorem failed_marker_terminates_loop_witness:
  "str_in ''failed'' (lower ''Lesson 3: why the 1991 coup FAILED'')
   \<and> snd (fst failed_word_round)
   \<and> fst (fst failed_word_round) ! 0
       = \<lparr> tool_use_id = ''tool_1'',
           result_content = PStr ''Lesson 3: why the 1991 coup FAILED'' \<rparr>
   \<and> failed_marker_ends_loop (trace (snd failed_word_run))
   \<and> tool_outcomes (trace (snd failed_word_run))
       = [Inr (PStr ''Lesson 3: why the 1991 coup FAILED'')]
   \<and> map tools (engine_requests (trace (snd failed_word_run))) = [Some mock_tools, None]"
proof -
  have round: "execute_single_tool_round (tool_use_response ''tool_1'' ''history'')
       mock_tool_manager (fresh ([], [Inr (PStr ''Lesson 3: why the 1991 coup FAILED'')]))
     = ((fst (fst failed_word_round), snd (fst failed_word_round)), snd failed_word_round)"
    by (simp add: failed_word_round_def)
  have k: "0 < length (tool_outcomes (trace (snd failed_word_round)))"
    and o: "tool_outcomes (trace (snd failed_word_round)) ! 0
              = Inr (PStr ''Lesson 3: why the 1991 coup FAILED'')"
    by (simp_all add: failed_word_value(2))
  have run: "generate_response mock_generator ''What happened in 1991?'' None (Some mock_tools)
       (Some mock_tool_manager) (fresh failed_word_script)
     = (fst failed_word_run, snd failed_word_run)"
    by (simp add: failed_word_run_def)
  from failed_marker_terminates_loop
         [where resp = "tool_use_response ''tool_1'' ''history''" and tm = mock_tool_manager
            and s = "([], [Inr (PStr ''Lesson 3: why the 1991 coup FAILED'')])"
            and results = "fst (fst failed_word_round)"
            and has_failures = "snd (fst failed_word_round)"
            and ?w1.0 = "snd failed_word_round" and k = 0
            and t = "''Lesson 3: why the 1991 coup FAILED''"
            and self = mock_generator and q = "''What happened in 1991?''" and h = None
            and tls = "Some mock_tools" and tmo = "Some mock_tool_manager"
            and s' = failed_word_script
            and out = "fst failed_word_run" and w' = "snd failed_word_run"]
       round k o run failed_word_value(1)
  show ?thesis
    by (simp add: failed_word_value tool_use_response_def)
qed

section \<open>Tool results in the transcript\<close>

lemma ids_of_results:
  "length outs = length ids \<Longrightarrow> map tool_use_id (map2 result_of ids outs) = ids"
proof (induction ids arbitrary: outs)
  case Nil
  then show ?case by simp
next
  case (Cons i ids)
  then obtain out outs' where o: "outs = out # outs'" by (cases outs) auto
  with Cons have "map tool_use_id (map2 result_of ids outs') = ids" by simp
  with o show ?case by (cases out) simp_all
qed

lemma ids_round_results:
  "tool_events cur tcs \<Longrightarrow>
     map tool_use_id (round_results cur tcs) = tool_use_ids (content cur)"
  unfolding round_results_def tool_events_def
  by (rule ids_of_results) simp

lemma round_results_empty:
  "tool_events cur tcs \<Longrightarrow> round_results cur tcs = [] \<longleftrightarrow> tool_use_ids (content cur) = []"
  using ids_round_results[of cur tcs] by (metis list.map_disc_iff)

lemma follows_up_round:
  assumes "tool_events cur tcs"
  shows "follows_up msgs cur (round_messages msgs cur (round_results cur tcs))"
  using ids_round_results[OF assms] round_results_empty[OF assms]
  by (simp add: follows_up_def round_messages_def)

lemma paired_append:
  "paired msgs \<Longrightarrow> paired ms \<Longrightarrow> paired (msgs @ ms)"
proof (induction msgs)
  case Nil
  then show ?case by simp
next
  case (Cons m msgs)
  then have "answered_by m msgs" by simp
  then have "answered_by m (msgs @ ms)"
    by (cases msgs) (auto simp: answered_by_def split: msg_content.splits)
  with Cons show ?case by simp
qed

lemma paired_round:
  assumes "tool_events cur tcs" "paired msgs"
  shows "paired (round_messages msgs cur (round_results cur tcs))"
proof -
  have "paired ([\<lparr> role = ''assistant'', msg_content = Blocks (content cur) \<rparr>]
           @ (if round_results cur tcs = [] then []
              else [\<lparr> role = ''user'', msg_content = ToolResults (round_results cur tcs) \<rparr>]))"
    using ids_round_results[OF assms(1)] round_results_empty[OF assms(1)]
    by (simp add: answered_by_def)
  with assms(2) show ?thesis
    unfolding round_messages_def by (rule paired_append)
qed

lemma generate_transcripts:
  assumes "generate_response self q h tls tmo (fresh s) = (out, w')"
  shows "replayed (engine_calls (trace w'))
         \<and> list_all (\<lambda>req. paired (messages req)) (engine_requests (trace w'))"
proof -
  let ?req0 = "initial_params self q h tls"
  have p0: "paired (messages ?req0)" by (simp add: answered_by_def)
  from generate_shape[OF assms]
  consider
    (direct) r0 where "trace w' = [EngineCall ?req0 r0]"
  | (loop) resp0 evs res where
      "trace w' = EngineCall ?req0 (Inr resp0) # evs"
      "loop_trace self ?req0 (messages ?req0) resp0 evs res"
    by (auto simp: fresh_def)
  then show ?thesis
  proof cases
    case direct
    with p0 show ?thesis by simp
  next
    case loop
    from loop(2) obtain tcs where tcs: "tool_events resp0 tcs"
      and shape:
        "(\<exists>req. evs = ToolRound 1 # tcs @ [EngineCall req res]
            \<and> messages req = round_messages (messages ?req0) resp0 (round_results resp0 tcs))
         \<or> (\<exists>req resp tcs2 req2. tool_events resp tcs2
              \<and> evs = ToolRound 1 # tcs @ EngineCall req (Inr resp) # ToolRound 2 # tcs2
                        @ [EngineCall req2 res]
              \<and> messages req = round_messages (messages ?req0) resp0 (round_results resp0 tcs)
              \<and> messages req2 = round_messages (messages req) resp (round_results resp tcs2))"
      unfolding loop_trace_def Let_def
      by (metis messages_forced_final messages_with_tools)
    have tc: "list_all is_tool_call tcs" using tcs by (simp add: tool_events_def)
    let ?m1 = "round_messages (messages ?req0) resp0 (round_results resp0 tcs)"
    have f1: "follows_up (messages ?req0) resp0 ?m1" using tcs by (rule follows_up_round)
    have p1: "paired ?m1" using tcs p0 by (rule paired_round)
    from shape show ?thesis
    proof (elim disjE exE conjE)
      fix req
      assume "evs = ToolRound 1 # tcs @ [EngineCall req res]" "messages req = ?m1"
      with loop(1) tc f1 p1 p0 show ?thesis by simp
    next
      fix req resp tcs2 req2
      assume a: "tool_events resp tcs2"
        "evs = ToolRound 1 # tcs @ EngineCall req (Inr resp) # ToolRound 2 # tcs2
                 @ [EngineCall req2 res]"
        "messages req = ?m1"
        "messages req2 = round_messages (messages req) resp (round_results resp tcs2)"
      have tc2: "list_all is_tool_call tcs2" using a(1) by (simp add: tool_events_def)
      have f2: "follows_up (messages req) resp (messages req2)"
        unfolding a(4) using a(1) by (rule follows_up_round)
      have p2: "paired (messages req2)"
        unfolding a(4) using a(1) p1 a(3) by (simp add: paired_round)
      from loop(1) a(2,3) tc tc2 f1 f2 p0 p1 p2 show ?thesis by simp
    qed
  qed
qed

text \<open>
  C3: a round returns exactly one tool result for each tool-use block of the response it
  processes, with the identifier of that block and in the order of the blocks, also when
  tool calls of the round fail. In every run of \<open>generate_response\<close>, the transcript
  of each engine call after the first is the transcript of the call before it, then the
  assistant turn with the content of the response to that call, then one user turn with
  those tool results (no user turn when the response holds no tool-use block); so in every
  transcript sent to the engine each assistant turn with tool-use blocks is immediately
  followed by the user turn with their results.
\<close>

theorem tool_results_follow_tool_uses:
  "(execute_single_tool_round resp tm w = ((results, has_failures), w1)
    \<longrightarrow> map tool_use_id results = tool_use_ids (content resp))
   \<and> (generate_response self q h tls tmo (fresh s) = (out, w')
    \<longrightarrow> replayed (engine_calls (trace w'))
        \<and> list_all (\<lambda>req. paired (messages req)) (engine_requests (trace w')))"
proof (intro conjI impI)
  assume run: "execute_single_tool_round resp tm w = ((results, has_failures), w1)"
  from execute_round_events[OF run] obtain tcs where
    "tool_events resp tcs" "results = round_results resp tcs"
    by blast
  then show "map tool_use_id results = tool_use_ids (content resp)"
    by (simp add: ids_round_results)
next
  assume run: "generate_response self q h tls tmo (fresh s) = (out, w')"
  from generate_transcripts[OF run]
  show "replayed (engine_calls (trace w'))"
    and "list_all (\<lambda>req. paired (messages req)) (engine_requests (trace w'))"
    by simp_all
qed

lemma max_rounds_transcript:
  "messages (engine_requests (trace (snd max_rounds_run)) ! 2)
     = [\<lparr> role = ''user'', msg_content = Text ''Multi-step query'' \<rparr>,
        \<lparr> role = ''assistant'',
          msg_content = Blocks [ToolUseBlock ''tool_1'' ''search_course_content''
                                  [(''query'', PStr ''test1'')]] \<rparr>,
        \<lparr> role = ''user'',
          msg_content = ToolResults [\<lparr> tool_use_id = ''tool_1'',
                                       result_content = PStr ''Result 1'' \<rparr>] \<rparr>,
        \<lparr> role = ''assistant'',
          msg_content = Blocks [ToolUseBlock ''tool_2'' ''search_course_content''
                                  [(''query'', PStr ''test2'')]] \<rparr>,
        \<lparr> role = ''user'',
          msg_content = ToolResults [\<lparr> tool_use_id = ''tool_2'',
                                       result_content = PStr ''Result 2'' \<rparr>] \<rparr>]"
  by (simp add: max_rounds_run_def run_defs max_rounds_script_def)

theorem tool_results_follow_tool_uses_witness:
  "map tool_use_id (fst (fst raising_tool_round)) = [''tool_123'']
   \<and> replayed (engine_calls (trace (snd max_rounds_run)))
   \<and> list_all (\<lambda>req. paired (messages req)) (engine_requests (trace (snd max_rounds_run)))
   \<and> messages (engine_requests (trace (snd max_rounds_run)) ! 2)
     = [\<lparr> role = ''user'', msg_content = Text ''Multi-step query'' \<rparr>,
        \<lparr> role = ''assistant'',
          msg_content = Blocks [ToolUseBlock ''tool_1'' ''search_course_content''
                                  [(''query'', PStr ''test1'')]] \<rparr>,
        \<lparr> role = ''user'',
          msg_content = ToolResults [\<lparr> tool_use_id = ''tool_1'',
                                       result_content = PStr ''Result 1'' \<rparr>] \<rparr>,
        \<lparr> role = ''assistant'',
          msg_content = Blocks [ToolUseBlock ''tool_2'' ''search_course_content''
                                  [(''query'', PStr ''test2'')]] \<rparr>,
        \<lparr> role = ''user'',
          msg_content = ToolResults [\<lparr> tool_use_id = ''tool_2'',
                                       result_content = PStr ''Result 2'' \<rparr>] \<rparr>]"
proof -
  have round: "execute_single_tool_round (tool_use_response ''tool_123'' ''test'')
       mock_tool_manager (fresh ([], [Inl (Exception ''Database connection failed'')]))
     = ((fst (fst raising_tool_round), snd (fst raising_tool_round)), snd raising_tool_round)"
    by (simp add: raising_tool_round_def)
  have run: "generate_response mock_generator ''Multi-step query'' None (Some mock_tools)
       (Some mock_tool_manager) (fresh max_rounds_script)
     = (fst max_rounds_run, snd max_rounds_run)"
    by (simp add: max_rounds_run_def)
  from tool_results_follow_tool_uses
         [where resp = "tool_use_response ''tool_123'' ''test''" and tm = mock_tool_manager
            and w = "fresh ([], [Inl (Exception ''Database connection failed'')])"
            and results = "fst (fst raising_tool_round)"
            and has_failures = "snd (fst raising_tool_round)"
            and ?w1.0 = "snd raising_tool_round"
            and self = mock_generator and q = "''Multi-step query''" and h = None
            and tls = "Some mock_tools" and tmo = "Some mock_tool_manager"
            and s = max_rounds_script
            and out = "fst max_rounds_run" and w' = "snd max_rounds_run"]
       round run max_rounds_transcript
  show ?thesis
    by (simp add: tool_use_response_def)
qed

section \<open>Responses that do not ask for a tool\<close>

lemma quiet_after_tool_calls [simp]:
  "list_all is_tool_call tcs \<Longrightarrow> quiet_after asks b (tcs @ es) = quiet_after asks b es"
proof (induction tcs)
  case Nil
  then show ?case by simp
next
  case (Cons e tcs)
  then show ?case by (cases e) simp_all
qed

lemma quiet_after_last [simp]: "quiet_after asks b [EngineCall req r]"
  by (cases r) simp_all

lemma generate_quiet:
  assumes "generate_response self q h tls tmo (fresh s) = (out, w')"
  shows "quiet_after as_tested True (trace w')"
proof -
  let ?req0 = "initial_params self q h tls"
  from generate_shape[OF assms]
  consider
    (direct) r0 where "trace w' = [EngineCall ?req0 r0]"
  | (loop) resp0 evs res where
      "stop_reason resp0 = ''tool_use''"
      "trace w' = EngineCall ?req0 (Inr resp0) # evs"
      "loop_trace self ?req0 (messages ?req0) resp0 evs res"
    by (auto simp: fresh_def)
  then show ?thesis
  proof cases
    case direct
    then show ?thesis by simp
  next
    case loop
    from loop(3) have "quiet_after as_tested False evs"
      unfolding loop_trace_def Let_def tool_events_def
      by (auto simp: as_tested_def)
    with loop(1,2) show ?thesis by (simp add: as_tested_def)
  qed
qed

text \<open>
  C4, as stated, fails: the loop does not look at the stop reason. A response obtained in
  round 1 whose stop reason is \<open>max_tokens\<close> and whose content holds a tool-use block
  starts round 2, and its tool is executed.
\<close>

theorem stop_reason_counterexample:
  "\<not> quiet_after by_stop_reason True (trace (snd truncated_run))"
  by (simp add: truncated_run_def truncated_response_def run_defs by_stop_reason_def)

text \<open>
  C4, amended: in every run of \<open>generate_response\<close>, no tool is executed after the
  first engine response when its stop reason is not \<open>tool_use\<close>, and no tool is
  executed after a response obtained in the loop when its content holds no tool-use block.
\<close>

theorem no_tool_request_no_execution:
  assumes "generate_response self q h tls tmo (fresh s) = (out, w')"
  shows "quiet_after as_tested True (trace w')"
  using assms by (rule generate_quiet)

lemma direct_answer_run_value:
  "trace (snd direct_answer_run)
     = [EngineCall (initial_params mock_generator ''What is 2+2?'' None (Some mock_tools))
          (Inr (text_response ''Direct answer without using tools''))]"
  by (simp add: direct_answer_run_def run_defs)

theorem no_tool_request_no_execution_witness:
  "quiet_after as_tested True (trace (snd direct_answer_run))
   \<and> tool_outcomes (trace (snd direct_answer_run)) = []
   \<and> quiet_after as_tested True (trace (snd truncated_run))
   \<and> tool_outcomes (trace (snd truncated_run))
       = [Inr (PStr ''Result 1''), Inr (PStr ''Result 2'')]"
proof -
  have run1: "generate_response mock_generator ''What is 2+2?'' None (Some mock_tools)
       (Some mock_tool_manager)
       (fresh ([Inr (text_response ''Direct answer without using tools'')],
               [Inr (PStr ''Result 1'')]))
     = (fst direct_answer_run, snd direct_answer_run)"
    by (simp add: direct_answer_run_def)
  have run2: "generate_response mock_generator ''Multi-step query'' None (Some mock_tools)
       (Some mock_tool_manager)
       (fresh ([Inr (tool_use_response ''tool_1'' ''test1''),
                Inr truncated_response,
                Inr (text_response ''Final answer'')],
               [Inr (PStr ''Result 1''), Inr (PStr ''Result 2'')]))
     = (fst truncated_run, snd truncated_run)"
    by (simp add: truncated_run_def)
  have outs: "tool_outcomes (trace (snd truncated_run))
       = [Inr (PStr ''Result 1''), Inr (PStr ''Result 2'')]"
    by (simp add: truncated_run_def truncated_response_def run_defs)
  from no_tool_request_no_execution[OF run1] no_tool_request_no_execution[OF run2] outs
  show ?thesis by (simp add: direct_answer_run_value)
qed

section \<open>Calls without tools\<close>

lemma initial_params_no_tools:
  "tls = None \<or> tls = Some [] \<Longrightarrow>
     tools (initial_params self q h tls) = None
     \<and> tool_choice (initial_params self q h tls) = None"
  by (auto simp: initial_params_def base_params_def Let_def)

text \<open>
  C7, as stated, fails: the loop is entered on the stop reason of the first response and
  the presence of a dispatcher, whether or not tools were supplied. Without tools, with a
  dispatcher and an engine that answers with stop reason \<open>tool_use\<close>, a second engine
  call is made.
\<close>

theorem single_call_counterexample:
  "length (engine_requests (trace (snd unsolicited_tool_use_run))) \<noteq> 1"
  by (simp add: unsolicited_tool_use_run_def run_defs)

text \<open>
  C7, amended: in every call of \<open>generate_response\<close> with no tools supplied
  (\<open>None\<close> or the empty list), the first engine call carries neither \<open>tools\<close> nor
  \<open>tool_choice\<close>; and when no dispatcher is supplied, or that call raises, or the stop
  reason of its response is not \<open>tool_use\<close>, it is the only event of the run and the
  call returns \<open>response.content[0].text\<close> of that response (it raises what the engine
  raised).
\<close>

theorem no_tools_single_call:
  assumes "tls = None \<or> tls = Some []"
      and "generate_response self q h tls tmo (fresh s) = (out, w')"
  shows "\<exists>r0 rest. trace w' = EngineCall (initial_params self q h tls) r0 # rest
           \<and> tools (initial_params self q h tls) = None
           \<and> tool_choice (initial_params self q h tls) = None
           \<and> (tmo = None \<or> (\<forall>resp. r0 = Inr resp \<longrightarrow> stop_reason resp \<noteq> ''tool_use'')
                \<longrightarrow> rest = [] \<and> out = final_text r0)"
proof -
  let ?req0 = "initial_params self q h tls"
  note nt = initial_params_no_tools[OF assms(1), of self q h]
  from generate_shape[OF assms(2)]
  consider
    (direct) r0 where "trace w' = [EngineCall ?req0 r0]" "out = final_text r0"
  | (loop) resp0 evs where
      "tmo \<noteq> None" "stop_reason resp0 = ''tool_use''"
      "trace w' = EngineCall ?req0 (Inr resp0) # evs"
    by (auto simp: fresh_def)
  then show ?thesis
  proof cases
    case direct
    with nt show ?thesis by simp
  next
    case loop
    with nt show ?thesis by auto
  qed
qed

lemma no_tools_run_value:
  "trace (snd no_tools_run)
     = [EngineCall (initial_params mock_generator ''What is Python?'' None None)
          (Inr (text_response ''This is a direct response''))]"
  "fst no_tools_run = Inr ''This is a direct response''"
  by (simp_all add: no_tools_run_def run_defs)

theorem no_tools_single_call_witness:
  "trace (snd no_tools_run)
     = [EngineCall (initial_params mock_generator ''What is Python?'' None None)
          (Inr (text_response ''This is a direct response''))]
   \<and> tools (initial_params mock_generator ''What is Python?'' None None) = None
   \<and> tool_choice (initial_params mock_generator ''What is Python?'' None None) = None
   \<and> fst no_tools_run = Inr ''This is a direct response''"
proof -
  have run: "generate_response mock_generator ''What is Python?'' None None None
       (fresh ([Inr (text_response ''This is a direct response'')], []))
     = (fst no_tools_run, snd no_tools_run)"
    by (simp add: no_tools_run_def)
  have "None = (None :: tool_schema list option) \<or> None = Some ([] :: tool_schema list)"
    by simp
  from no_tools_single_call[OF this run] show ?thesis
    by (auto simp: no_tools_run_value)
qed

end
